theory Spec2Isabelle
  imports Main "HOL-Library.Sublist"
begin

section \<open>The code cells of the notebook\<close>

text \<open>
  The repository is one Jupyter notebook, \<^verbatim>\<open>03_performance.ipynb\<close>: thirty-one cells,
  twelve of them code cells. A code cell is the list of the lines of its \<^verbatim>\<open>source\<close>
  array (without the line ends), named after its index in the notebook's \<^verbatim>\<open>cells\<close>
  array. The markdown cells are prose; the one a property below refers to, cell 13, is
  kept as its text.
\<close>

definition cell_2 :: "string list" where
  "cell_2 =
    [''import examples.seismic.benchmark'',
     ''benchmark = examples.seismic.benchmark.__file__'']"

definition cell_3 :: "string list" where
  "cell_3 =
    [''# For a full list of options'',
     ''%run $benchmark --help'']"

definition cell_5 :: "string list" where
  "cell_5 = [''%run $benchmark run -P acoustic'']"

definition cell_7 :: "string list" where
  "cell_7 = [''%env DEVITO_OPENMP=1'']"

definition cell_9 :: "string list" where
  "cell_9 = [''! lscpu'']"

definition cell_11 :: "string list" where
  "cell_11 = [''%env OMP_NUM_THREADS=8'']"


definition cell_14 :: "string list" where
  \<open>cell_14 =
    [''# Thread pinning'',
     ''%env KMP_HW_SUBSET=8c,1t'',
     ''%env KMP_AFFINITY=compact'',
     ''# Tell Devito to use the Intel compiler'',
     ''%env DEVITO_ARCH=intel'',
     ''# or, equivalently, programmatically'',
     ''from devito import configuration'',
     ''configuration['compiler'] = 'intel'' @ [CHR 0x27],
     [],
     ''for i in range(3):'',
     ''    print ("Run %d" % i)'',
     ''    %run $benchmark run -P acoustic -so 8 -d 256 256 256 --tn 50'']\<close>

definition cell_17 :: "string list" where
  "cell_17 = [''run $benchmark run -P acoustic -so 8 -d 256 256 256 --tn 50 -dse advanced'']"

definition cell_20 :: "string list" where
  "cell_20 = [''run $benchmark run -P acoustic -so 8 -d 512 512 512 --tn 50 -dse advanced'']"

definition cell_22 :: "string list" where
  "cell_22 =
    [''run $benchmark run -P acoustic -so 8 -d 512 512 512 --tn 50 -dse advanced -dle advanced'']"

definition cell_24 :: "string list" where
  "cell_24 =
    [''%env DEVITO_AUTOTUNING=aggressive'',
     ''run $benchmark run -P acoustic -so 8 -d 512 512 512 --tn 50 -dse advanced -dle advanced -a'']"

definition cell_27 :: "string list" where
  "cell_27 =
    [''%env DEVITO_BACKEND=yask'',
     ''run $benchmark run -P acoustic -so 8 -d 512 512 512 --tn 50 -dse advanced'']"

definition code_cells :: "string list list" where
  "code_cells =
    [cell_2, cell_3, cell_5, cell_7, cell_9, cell_11, cell_14,
     cell_17, cell_20, cell_22, cell_24, cell_27]"

definition code_lines :: "string list" where
  "code_lines = concat code_cells"


section \<open>Reading the lines the way IPython does\<close>

text \<open>
  IPython turns a cell into Python in two passes. The first works on every line and is the
  same whatever the kernel holds: \<^verbatim>\<open>!\<close> at the start of a line escapes to the system shell
  and \<^verbatim>\<open>%\<close> calls a line magic. The second is applied only to a cell that is a single line:
  there a first word that names a magic calls it too (automagic), unless the rest of the
  line starts with \<^verbatim>\<open>=\<close> or a comma, and as long as no variable has that name. What the
  two passes leave is compiled as Python, whose statements are told apart by their first
  keyword; a line that still holds a \<^verbatim>\<open>$\<close> outside a string literal is no Python, and the
  cell that holds it is refused with a \<^verbatim>\<open>SyntaxError\<close> before any of its lines runs. The
  two magics the notebook uses are \<^verbatim>\<open>env\<close> and \<^verbatim>\<open>run\<close>.
\<close>

definition lstrip :: "string \<Rightarrow> string" where
  "lstrip s = dropWhile (\<lambda>c. c = CHR '' '') s"

definition strip :: "string \<Rightarrow> string" where
  "strip s = rev (lstrip (rev (lstrip s)))"

definition ident_char :: "char \<Rightarrow> bool" where
  "ident_char c =
    (c \<in> set ''abcdefghijklmnopqrstuvwxyzABCDEFGHIJKLMNOPQRSTUVWXYZ0123456789_'')"

definition leading_word :: "string \<Rightarrow> string" where
  "leading_word s = takeWhile ident_char (lstrip s)"

text \<open>
  The word by which IPython looks up a magic runs over identifier characters, dots and
  stars, so that \<^verbatim>\<open>run.x\<close> does not name the magic \<^verbatim>\<open>run\<close>; the rest of the line is its
  argument line.
\<close>

definition ifun_char :: "char \<Rightarrow> bool" where
  "ifun_char c = (ident_char c \<or> c = CHR ''.'' \<or> c = CHR ''*'')"

definition ifun :: "string \<Rightarrow> string" where
  "ifun s = takeWhile ifun_char (lstrip s)"

definition the_rest :: "string \<Rightarrow> string" where
  "the_rest s = lstrip (dropWhile ifun_char (lstrip s))"

text \<open>The words of a line: what stands between its blanks.\<close>

fun words_acc :: "string \<Rightarrow> string \<Rightarrow> string list" where
  "words_acc acc [] = (if acc = [] then [] else [acc])"
| "words_acc acc (c # cs) =
    (if c = CHR '' '' then (if acc = [] then [] else [acc]) @ words_acc [] cs
     else words_acc (acc @ [c]) cs)"

definition words :: "string \<Rightarrow> string list" where
  "words s = words_acc [] s"

text \<open>
  The names of a Python line: its maximal runs of identifier characters outside string
  literals, up to a comment. \<open>bare\<close> is the line without its string literals and its
  comment.
\<close>

definition flush :: "string \<Rightarrow> string list" where
  "flush acc = (if acc = [] then [] else [acc])"

fun names_acc :: "char option \<Rightarrow> string \<Rightarrow> string \<Rightarrow> string list" where
  "names_acc q acc [] = flush acc"
| "names_acc (Some q) acc (c # cs) =
    (if c = q then names_acc None [] cs else names_acc (Some q) [] cs)"
| "names_acc None acc (c # cs) =
    (if ident_char c then names_acc None (acc @ [c]) cs
     else if c = CHR ''#'' then flush acc
     else if c = CHR 0x27 \<or> c = CHR 0x22 then flush acc @ names_acc (Some c) [] cs
     else flush acc @ names_acc None [] cs)"

definition py_names :: "string \<Rightarrow> string list" where
  "py_names s = names_acc None [] s"

fun bare_acc :: "char option \<Rightarrow> string \<Rightarrow> string" where
  "bare_acc q [] = []"
| "bare_acc (Some q) (c # cs) = (if c = q then bare_acc None cs else bare_acc (Some q) cs)"
| "bare_acc None (c # cs) =
    (if c = CHR ''#'' then []
     else if c = CHR 0x27 \<or> c = CHR 0x22 then bare_acc (Some c) cs
     else c # bare_acc None cs)"

definition bare :: "string \<Rightarrow> string" where
  "bare s = bare_acc None s"

text \<open>
  An assignment is a line with an \<^verbatim>\<open>=\<close> outside brackets and string literals that is
  not part of a comparison (\<^verbatim>\<open>==\<close>, \<^verbatim>\<open>!=\<close>, \<^verbatim>\<open><=\<close>, \<^verbatim>\<open>>=\<close>); \<open>split_assign\<close> gives
  the text on either side of the first one.
\<close>

fun split_assign :: "nat \<Rightarrow> char option \<Rightarrow> string \<Rightarrow> string \<Rightarrow> (string \<times> string) option" where
  "split_assign d q acc [] = None"
| "split_assign d (Some q) acc (c # cs) =
    split_assign d (if c = q then None else Some q) (acc @ [c]) cs"
| "split_assign d None acc (c # cs) =
    (if c = CHR 0x27 \<or> c = CHR 0x22 then split_assign d (Some c) (acc @ [c]) cs
     else if c = CHR ''#'' then None
     else if c \<in> set ''([{'' then split_assign (Suc d) None (acc @ [c]) cs
     else if c \<in> set '')]}'' then split_assign (d - 1) None (acc @ [c]) cs
     else if c = CHR ''='' \<and> d = 0
          \<and> \<not> (cs \<noteq> [] \<and> hd cs = CHR ''='')
          \<and> \<not> (acc \<noteq> [] \<and> last acc \<in> set ''=!<>'')
       then Some (acc, cs)
     else split_assign d None (acc @ [c]) cs)"

definition assignment :: "string \<Rightarrow> (string \<times> string) option" where
  "assignment s =
    (case split_assign 0 None [] (lstrip s) of
       None \<Rightarrow> None
     | Some (target, rhs) \<Rightarrow> Some (strip target, strip rhs))"

datatype kind =
    Blank | Comment
  | ShellEscape | EnvMagic | RunMagic | OtherMagic
  | ImportStmt
  | FunctionDef | ClassDef | Decorator
  | TryStmt | Branch | WhileLoop | ForLoop | WithStmt | OtherKeyword
  | NameAssign | AttrAssign | ItemAssign
  | ExprStmt
  | NoPython

definition magic_kind :: "string \<Rightarrow> kind" where
  "magic_kind name =
    (if name = ''env'' then EnvMagic else if name = ''run'' then RunMagic else OtherMagic)"

definition python_kind :: "string \<Rightarrow> kind" where
  "python_kind s =
    (let w = leading_word s in
     if CHR ''$'' \<in> set (bare s) then NoPython
     else if w \<in> set [''import'', ''from''] then ImportStmt
     else if w \<in> set [''def'', ''async''] then FunctionDef
     else if w = ''class'' then ClassDef
     else if w \<in> set [''try'', ''except'', ''finally''] then TryStmt
     else if w \<in> set [''if'', ''elif'', ''else''] then Branch
     else if w = ''while'' then WhileLoop
     else if w = ''for'' then ForLoop
     else if w = ''with'' then WithStmt
     else if w \<in> set [''return'', ''raise'', ''assert'', ''del'', ''global'', ''nonlocal'',
                       ''pass'', ''break'', ''continue'', ''yield'', ''await''] then OtherKeyword
     else (case assignment s of
             None \<Rightarrow> ExprStmt
           | Some (target, rhs) \<Rightarrow>
               if CHR ''['' \<in> set target then ItemAssign
               else if CHR ''.'' \<in> set target then AttrAssign
               else NameAssign))"

text \<open>
  \<open>line_kind\<close> reads a line by itself: what the line is when it is a cell of its own, on a
  kernel where \<^verbatim>\<open>env\<close> and \<^verbatim>\<open>run\<close> are no variables. It is in this reading that a line
  \<^verbatim>\<open>run script args\<close> is written as a run of the script.
\<close>

definition automagic :: "string \<Rightarrow> bool" where
  "automagic s =
    (ifun s \<in> set [''env'', ''run'']
     \<and> (the_rest s = [] \<or> hd (the_rest s) \<notin> set ''=,''))"

definition line_kind :: "string \<Rightarrow> kind" where
  "line_kind l =
    (let s = lstrip l in
     if s = [] then Blank
     else if hd s = CHR ''#'' then Comment
     else if hd s = CHR ''!'' then ShellEscape
     else if hd s = CHR ''%'' then magic_kind (ifun (tl s))
     else if hd s = CHR ''@'' then Decorator
     else if automagic s then magic_kind (ifun s)
     else python_kind s)"

text \<open>
  \<open>cell_kinds\<close> reads the lines of a cell the way the kernel does when it runs the cell:
  with automagic when the cell is one line, without it when the cell has more.
\<close>

definition static_kind :: "string \<Rightarrow> kind" where
  "static_kind l =
    (let s = lstrip l in
     if s = [] then Blank
     else if hd s = CHR ''#'' then Comment
     else if hd s = CHR ''!'' then ShellEscape
     else if hd s = CHR ''%'' then magic_kind (ifun (tl s))
     else if hd s = CHR ''@'' then Decorator
     else python_kind s)"

definition cell_kinds :: "string list \<Rightarrow> kind list" where
  "cell_kinds ls = (if length ls = 1 then map line_kind ls else map static_kind ls)"

definition is_python :: "string \<Rightarrow> bool" where
  "is_python l =
    (line_kind l \<notin> set [Blank, Comment, ShellEscape, EnvMagic, RunMagic, OtherMagic])"

text \<open>The argument line of a magic: what follows its name.\<close>

definition magic_args :: "string \<Rightarrow> string" where
  "magic_args l =
    (let s = lstrip l in the_rest (if s \<noteq> [] \<and> hd s = CHR ''%'' then tl s else s))"

text \<open>
  \<^verbatim>\<open>%env\<close> sets a variable when its argument line has two parts, split at the first
  \<^verbatim>\<open>=\<close> if there is one and at the first blank otherwise; the name must hold no blank.
\<close>

fun split_first :: "char \<Rightarrow> string \<Rightarrow> string \<Rightarrow> (string \<times> string) option" where
  "split_first sep acc [] = None"
| "split_first sep acc (c # cs) =
    (if c = sep then Some (acc, cs) else split_first sep (acc @ [c]) cs)"

definition env_setting :: "string \<Rightarrow> (string \<times> string) option" where
  "env_setting args =
    (case split_first (if CHR ''='' \<in> set args then CHR ''='' else CHR '' '') [] (strip args) of
       None \<Rightarrow> None
     | Some (var, val) \<Rightarrow>
         if CHR '' '' \<in> set (strip var) then None else Some (strip var, strip val))"


section \<open>The statements of the cells\<close>

text \<open>
  The fragment of Python and IPython the cells are written in: names, string and number
  literals, attribute access, calls and the \<^verbatim>\<open>%\<close> operator as expressions; imports,
  assignments to a name or to an item, \<^verbatim>\<open>for\<close> loops, expression statements, line magics
  (written with \<^verbatim>\<open>%\<close> or, in a cell of one line, without) and shell escapes as
  statements. A line that the kernel can read neither as a magic nor as Python is kept as
  it is written (\<open>Refused\<close>).
\<close>

datatype expr =
    Name string
  | Str string
  | Num nat
  | Attr expr string
  | Call expr "expr list"
  | Mod expr expr

datatype target = ToName string | ToItem expr expr

datatype stmt =
    Import string "string list"
  | ImportFrom "string list" string
  | Assign target expr
  | For string expr "stmt list"
  | ExprS expr
  | Magic bool string string
  | Shell string
  | Refused string

definition prog_2 :: "stmt list" where
  "prog_2 =
    [Import ''examples'' [''seismic'', ''benchmark''],
     Assign (ToName ''benchmark'')
       (Attr (Attr (Attr (Name ''examples'') ''seismic'') ''benchmark'') ''__file__'')]"

definition prog_3 :: "stmt list" where
  "prog_3 = [Magic True ''run'' ''$benchmark --help'']"

definition prog_5 :: "stmt list" where
  "prog_5 = [Magic True ''run'' ''$benchmark run -P acoustic'']"

definition prog_7 :: "stmt list" where
  "prog_7 = [Magic True ''env'' ''DEVITO_OPENMP=1'']"

definition prog_9 :: "stmt list" where
  "prog_9 = [Shell '' lscpu'']"

definition prog_11 :: "stmt list" where
  "prog_11 = [Magic True ''env'' ''OMP_NUM_THREADS=8'']"

definition prog_14 :: "stmt list" where
  "prog_14 =
    [Magic True ''env'' ''KMP_HW_SUBSET=8c,1t'',
     Magic True ''env'' ''KMP_AFFINITY=compact'',
     Magic True ''env'' ''DEVITO_ARCH=intel'',
     ImportFrom [''devito''] ''configuration'',
     Assign (ToItem (Name ''configuration'') (Str ''compiler'')) (Str ''intel''),
     For ''i'' (Call (Name ''range'') [Num 3])
       [ExprS (Call (Name ''print'') [Mod (Str ''Run %d'') (Name ''i'')]),
        Magic True ''run'' ''$benchmark run -P acoustic -so 8 -d 256 256 256 --tn 50'']]"

definition prog_17 :: "stmt list" where
  "prog_17 =
    [Magic False ''run'' ''$benchmark run -P acoustic -so 8 -d 256 256 256 --tn 50 -dse advanced'']"

definition prog_20 :: "stmt list" where
  "prog_20 =
    [Magic False ''run'' ''$benchmark run -P acoustic -so 8 -d 512 512 512 --tn 50 -dse advanced'']"

definition prog_22 :: "stmt list" where
  "prog_22 =
    [Magic False ''run''
       ''$benchmark run -P acoustic -so 8 -d 512 512 512 --tn 50 -dse advanced -dle advanced'']"

text \<open>
  Cells 24 and 27 have two lines each, so their second line, written without \<^verbatim>\<open>%\<close>, is
  not read as a magic.
\<close>

definition prog_24 :: "stmt list" where
  "prog_24 =
    [Magic True ''env'' ''DEVITO_AUTOTUNING=aggressive'',
     Refused
       ''run $benchmark run -P acoustic -so 8 -d 512 512 512 --tn 50 -dse advanced -dle advanced -a'']"

definition prog_27 :: "stmt list" where
  "prog_27 =
    [Magic True ''env'' ''DEVITO_BACKEND=yask'',
     Refused ''run $benchmark run -P acoustic -so 8 -d 512 512 512 --tn 50 -dse advanced'']"

definition notebook :: "stmt list list" where
  "notebook =
    [prog_2, prog_3, prog_5, prog_7, prog_9, prog_11, prog_14,
     prog_17, prog_20, prog_22, prog_24, prog_27]"

subsection \<open>From statements back to lines\<close>

text \<open>
  Writing the statements out gives the lines of the cells again, comments and empty lines
  apart, up to blanks inside a line and the kind of quote around a string literal; and the
  kinds of the statements are the kinds that the kernel reads off the lines.
\<close>

definition digit :: "nat \<Rightarrow> char" where
  "digit n = ''0123456789'' ! (n mod 10)"

fun dec_nat :: "nat \<Rightarrow> string" where
  "dec_nat n = (if n < 10 then [digit n] else dec_nat (n div 10) @ [digit n])"

declare dec_nat.simps [simp del]

definition dec_int :: "int \<Rightarrow> string" where
  "dec_int i = (if i < 0 then CHR ''-'' # dec_nat (nat (- i)) else dec_nat (nat i))"

fun join :: "string \<Rightarrow> string list \<Rightarrow> string" where
  "join sep [] = []"
| "join sep [x] = x"
| "join sep (x # y # ys) = x @ sep @ join sep (y # ys)"

fun render_expr :: "expr \<Rightarrow> string" where
  "render_expr (Name x) = x"
| "render_expr (Str s) = [CHR 0x27] @ s @ [CHR 0x27]"
| "render_expr (Num n) = dec_nat n"
| "render_expr (Attr e a) = render_expr e @ ''.'' @ a"
| "render_expr (Call f args) = render_expr f @ ''('' @ join '', '' (map render_expr args) @ '')''"
| "render_expr (Mod a b) = render_expr a @ '' % '' @ render_expr b"

fun render_target :: "target \<Rightarrow> string" where
  "render_target (ToName x) = x"
| "render_target (ToItem obj key) = render_expr obj @ ''['' @ render_expr key @ '']''"

fun render :: "stmt \<Rightarrow> string list" where
  "render (Import m ms) = [''import '' @ join ''.'' (m # ms)]"
| "render (ImportFrom m x) = [''from '' @ join ''.'' m @ '' import '' @ x]"
| "render (Assign t e) = [render_target t @ '' = '' @ render_expr e]"
| "render (For x e body) =
    (''for '' @ x @ '' in '' @ render_expr e @ '':'')
      # map (\<lambda>l. ''    '' @ l) (concat (map render body))"
| "render (ExprS e) = [render_expr e]"
| "render (Magic percent name args) = [(if percent then ''%'' else []) @ name @ '' '' @ args]"
| "render (Shell cmd) = [''!'' @ cmd]"
| "render (Refused l) = [l]"

definition render_cell :: "stmt list \<Rightarrow> string list" where
  "render_cell p = concat (map render p)"

definition canonical :: "string \<Rightarrow> string" where
  "canonical l =
    takeWhile (\<lambda>c. c = CHR '' '') l
      @ map (\<lambda>c. if c = CHR 0x22 then CHR 0x27 else c) (filter (\<lambda>c. c \<noteq> CHR '' '') l)"

definition statement_lines :: "string list \<Rightarrow> string list" where
  "statement_lines cell = filter (\<lambda>l. line_kind l \<notin> set [Blank, Comment]) cell"

fun stmt_kinds :: "stmt \<Rightarrow> kind list" where
  "stmt_kinds (Import m ms) = [ImportStmt]"
| "stmt_kinds (ImportFrom m x) = [ImportStmt]"
| "stmt_kinds (Assign (ToName x) e) = [NameAssign]"
| "stmt_kinds (Assign (ToItem obj key) e) = [ItemAssign]"
| "stmt_kinds (For x e body) = ForLoop # concat (map stmt_kinds body)"
| "stmt_kinds (ExprS e) = [ExprStmt]"
| "stmt_kinds (Magic percent name args) = [magic_kind name]"
| "stmt_kinds (Shell c) = [ShellEscape]"
| "stmt_kinds (Refused l) = [NoPython]"

definition read_kinds :: "string list \<Rightarrow> kind list" where
  "read_kinds cell = filter (\<lambda>k. k \<notin> set [Blank, Comment]) (cell_kinds cell)"

text \<open>
  The kernel compiles a cell when none of its lines is refused. In the statements a magic
  written without \<^verbatim>\<open>%\<close> can only be the one statement of its cell.
\<close>

fun sound :: "stmt \<Rightarrow> bool" where
  "sound (Refused l) = False"
| "sound (Magic percent name args) = percent"
| "sound (For x e body) = list_all sound body"
| "sound s = True"

definition compiles :: "stmt list \<Rightarrow> bool" where
  "compiles c = (case c of [Magic percent name args] \<Rightarrow> True | _ \<Rightarrow> list_all sound c)"


section \<open>Running the cells\<close>

text \<open>
  What the statements do when a kernel runs them. Everything the statements of the cells
  themselves change is written into the \<open>world\<close>: the process environment, the
  interactive namespace, the items assigned on objects of external libraries, the runs of
  scripts asked for (each with the environment in force when it starts), the commands
  handed to the system shell (each a child process), what was printed and the exceptions
  that the kernel caught and showed.

  The notebook holds none of the code it imports or runs, so the model stops at that
  boundary and asks \<open>external\<close> for what lies beyond it: whether an import or an
  assignment into a library's object raises, and, for a script that is run, what it raises
  and which global names it ends with. What the external code does to the process besides
  (to the environment, to the library's configuration) is not in the world, and the file
  named on a run line is taken to be there. The names that the kernel keeps for its own
  bookkeeping (the input and output history) are left out as well.

  \<^verbatim>\<open>%run\<close> executes the script inside the kernel's process, so a run is no entry of
  \<open>procs\<close>. It catches whatever the script raises and shows the traceback, so the line
  itself does not raise, and it then copies the script's globals into the interactive
  namespace. A shell escape starts a child process, waits for it and leaves its exit
  status in the variable \<^verbatim>\<open>_exit_code\<close>.
\<close>

text \<open>
  The values: \<open>VExt p\<close> is the object of an external library found at the dotted path
  \<open>p\<close>, \<open>VExit c\<close> the exit status of the shell command \<open>c\<close>, \<open>VGlobal k x\<close> the object that
  the script of run number \<open>k\<close> left under the name \<open>x\<close>, \<open>VBuiltin b\<close> the builtin function
  \<open>b\<close>.
\<close>

datatype val =
    VNone
  | VInt int
  | VStr string
  | VRange int
  | VBuiltin string
  | VExt "string list"
  | VExit string
  | VGlobal nat string

datatype error =
    NameError string
  | TypeError
  | ValueError
  | ZeroDivisionError
  | UsageError
  | SyntaxError
  | Raised string
  | Unmodelled

record run =
  cmd :: "val list"
  run_env :: "string \<rightharpoonup> string"

record world =
  environ :: "string \<rightharpoonup> string"
  user_ns :: "string \<rightharpoonup> val"
  items :: "val \<times> val \<rightharpoonup> val"
  runs :: "run list"
  procs :: "string list"
  out :: "val list list"
  shown :: "error list"

datatype action =
    DoImport "string list"
  | DoSetItem "string list" val val
  | DoRun run

text \<open>
  The answer of the external code to an action: the exception it raises, if any, and, for
  a run, the global names the script ends with. The number is the count of script runs
  before the action, so that a run may fail at one time and not at the next.
\<close>

record reply =
  raised :: "error option"
  leaves :: "string list"

type_synonym external = "nat \<Rightarrow> action \<Rightarrow> reply"

text \<open>
  The builtin functions that the model knows; a name bound nowhere else is a
  \<^verbatim>\<open>NameError\<close>.
\<close>

definition builtins :: "string list" where
  "builtins = [''range'', ''print'']"

definition resolve :: "(string \<rightharpoonup> val) \<Rightarrow> string \<Rightarrow> val option" where
  "resolve ns x =
    (case ns x of
       Some v \<Rightarrow> Some v
     | None \<Rightarrow> if x \<in> set builtins then Some (VBuiltin x) else None)"

text \<open>The values of which the model knows neither the text nor the operations.\<close>

definition opaque :: "val \<Rightarrow> bool" where
  "opaque v = (case v of VExt p \<Rightarrow> True | VExit c \<Rightarrow> True | VGlobal k x \<Rightarrow> True | _ \<Rightarrow> False)"

text \<open>
  \<^verbatim>\<open>fmt % v\<close> on a string with one value: \<^verbatim>\<open>%d\<close> writes an integer, \<^verbatim>\<open>%%\<close> a percent
  sign. The value must be used exactly once. Other conversions are outside the model.
\<close>

fun format :: "string \<Rightarrow> val option \<Rightarrow> error + string" where
  "format [] None = Inr []"
| "format [] (Some v) = Inl TypeError"
| "format [c] a = (if c = CHR ''%'' then Inl ValueError else map_sum id ((#) c) (format [] a))"
| "format (c # d # cs) a =
    (if c \<noteq> CHR ''%'' then map_sum id ((#) c) (format (d # cs) a)
     else if d = CHR ''%'' then map_sum id ((#) CHR ''%'') (format cs a)
     else if d = CHR ''d'' then
       (case a of
          None \<Rightarrow> Inl TypeError
        | Some (VInt n) \<Rightarrow> map_sum id ((@) (dec_int n)) (format cs None)
        | Some v \<Rightarrow> Inl (if opaque v then Unmodelled else TypeError))
     else Inl Unmodelled)"

definition binop_mod :: "val \<Rightarrow> val \<Rightarrow> error + val" where
  "binop_mod a b =
    (if opaque a \<or> opaque b then Inl Unmodelled
     else case (a, b) of
       (VStr fmt, v) \<Rightarrow> map_sum id VStr (format fmt (Some v))
     | (VInt x, VInt y) \<Rightarrow> if y = 0 then Inl ZeroDivisionError else Inr (VInt (x mod y))
     | _ \<Rightarrow> Inl TypeError)"

text \<open>
  An attribute of an object of an external library is named by its path and is taken to be
  there (after an import that did not raise, a module has its submodules and its
  \<^verbatim>\<open>__file__\<close>). The attributes of the other values are outside the model.
\<close>

definition getattr :: "val \<Rightarrow> string \<Rightarrow> error + val" where
  "getattr v a = (case v of VExt p \<Rightarrow> Inr (VExt (p @ [a])) | _ \<Rightarrow> Inl Unmodelled)"

definition printed :: "val list \<Rightarrow> world \<Rightarrow> world" where
  "printed vs w = w\<lparr>out := out w @ [vs]\<rparr>"

definition call :: "val \<Rightarrow> val list \<Rightarrow> world \<Rightarrow> (error + val) \<times> world" where
  "call f args w =
    (case f of
       VBuiltin b \<Rightarrow>
         if b = ''range'' then
           (case args of
              [] \<Rightarrow> (Inl TypeError, w)
            | [VInt n] \<Rightarrow> (Inr (VRange n), w)
            | _ \<Rightarrow> (Inl Unmodelled, w))
         else if b = ''print'' then (Inr VNone, printed args w)
         else (Inl Unmodelled, w)
     | _ \<Rightarrow> (Inl (if opaque f then Unmodelled else TypeError), w))"

fun eval :: "expr \<Rightarrow> world \<Rightarrow> (error + val) \<times> world"
and eval_list :: "expr list \<Rightarrow> world \<Rightarrow> (error + val list) \<times> world" where
  "eval (Name x) w =
    (case resolve (user_ns w) x of
       Some v \<Rightarrow> (Inr v, w)
     | None \<Rightarrow> (Inl (NameError x), w))"
| "eval (Str s) w = (Inr (VStr s), w)"
| "eval (Num n) w = (Inr (VInt (int n)), w)"
| "eval (Attr e a) w =
    (case eval e w of
       (Inl err, w') \<Rightarrow> (Inl err, w')
     | (Inr v, w') \<Rightarrow> (getattr v a, w'))"
| "eval (Call f args) w =
    (case eval f w of
       (Inl err, w') \<Rightarrow> (Inl err, w')
     | (Inr fv, w') \<Rightarrow>
         (case eval_list args w' of
            (Inl err, w'') \<Rightarrow> (Inl err, w'')
          | (Inr vs, w'') \<Rightarrow> call fv vs w''))"
| "eval (Mod a b) w =
    (case eval a w of
       (Inl err, w') \<Rightarrow> (Inl err, w')
     | (Inr x, w') \<Rightarrow>
         (case eval b w' of
            (Inl err, w'') \<Rightarrow> (Inl err, w'')
          | (Inr y, w'') \<Rightarrow> (binop_mod x y, w'')))"
| "eval_list [] w = (Inr [], w)"
| "eval_list (e # es) w =
    (case eval e w of
       (Inl err, w') \<Rightarrow> (Inl err, w')
     | (Inr v, w') \<Rightarrow>
         (case eval_list es w' of
            (Inl err, w'') \<Rightarrow> (Inl err, w'')
          | (Inr vs, w'') \<Rightarrow> (Inr (v # vs), w'')))"

text \<open>
  Before a magic or a shell escape gets its argument line, IPython puts the text of a
  variable in place of each \<^verbatim>\<open>$name\<close>, and leaves the whole line as it is when one of the
  names is bound nowhere. The model follows this for the words of the form \<^verbatim>\<open>$name\<close>; a
  \<^verbatim>\<open>$\<close> elsewhere in a word, and braces, are outside it. The text of a number or a string
  is known; an object of an external library or an exit status stands for its text as one
  word (as the path of a file without blanks is); of the other values the text is outside
  the model.
\<close>

definition literal :: "string \<Rightarrow> bool" where
  "literal s = list_all (\<lambda>c. c \<notin> set ''${}'') s"

definition reference :: "string \<Rightarrow> string option" where
  "reference w = (if w \<noteq> [] \<and> hd w = CHR ''$'' then Some (tl w) else None)"

definition expandable :: "string \<Rightarrow> bool" where
  "expandable w =
    (case reference w of
       None \<Rightarrow> CHR ''$'' \<notin> set w
     | Some x \<Rightarrow> x \<noteq> [] \<and> list_all ident_char x \<and> hd x \<notin> set ''0123456789'')"

text \<open>
  \<^verbatim>\<open>%run\<close> splits its argument line into words as a shell does and expands wildcards in
  them; on a line without quotes, backslashes, wildcards and tildes these are the words
  between the blanks.
\<close>

definition plain :: "string \<Rightarrow> bool" where
  "plain s = list_all (\<lambda>c. c \<notin> set (''*?[]{}~'' @ [CHR 0x22, CHR 0x27, CHR 0x5C])) s"

definition text_words :: "val \<Rightarrow> val list option" where
  "text_words v =
    (case v of
       VStr s \<Rightarrow> if plain s then Some (map VStr (words s)) else None
     | VInt n \<Rightarrow> Some [VStr (dec_int n)]
     | VNone \<Rightarrow> Some [VStr ''None'']
     | VExt p \<Rightarrow> Some [VExt p]
     | VExit c \<Rightarrow> Some [VExit c]
     | _ \<Rightarrow> None)"

fun gather :: "'a list option list \<Rightarrow> 'a list option" where
  "gather [] = Some []"
| "gather (None # xs) = None"
| "gather (Some a # xs) = map_option ((@) a) (gather xs)"

definition unresolved :: "(string \<rightharpoonup> val) \<Rightarrow> string list \<Rightarrow> string list" where
  "unresolved ns ws =
    filter (\<lambda>w. case reference w of None \<Rightarrow> False | Some x \<Rightarrow> resolve ns x = None) ws"

definition expand_word :: "(string \<rightharpoonup> val) \<Rightarrow> string \<Rightarrow> val list option" where
  "expand_word ns w =
    (case reference w of
       None \<Rightarrow> Some [VStr w]
     | Some x \<Rightarrow> (case resolve ns x of Some v \<Rightarrow> text_words v | None \<Rightarrow> Some [VStr w]))"

definition var_expand :: "(string \<rightharpoonup> val) \<Rightarrow> string list \<Rightarrow> val list option" where
  "var_expand ns ws =
    (if unresolved ns ws \<noteq> [] then Some (map VStr ws) else gather (map (expand_word ns) ws))"

definition bind :: "string \<Rightarrow> val \<Rightarrow> world \<Rightarrow> world" where
  "bind x v w = w\<lparr>user_ns := (user_ns w)(x \<mapsto> v)\<rparr>"

definition import_module :: "external \<Rightarrow> string list \<Rightarrow> string \<Rightarrow> val \<Rightarrow> world \<Rightarrow> error option \<times> world" where
  "import_module X path x v w =
    (case raised (X (length (runs w)) (DoImport path)) of
       Some err \<Rightarrow> (Some err, w)
     | None \<Rightarrow> (None, bind x v w))"

definition assigned :: "val \<Rightarrow> val \<Rightarrow> val \<Rightarrow> world \<Rightarrow> world" where
  "assigned obj key v w = w\<lparr>items := (items w)((obj, key) \<mapsto> v)\<rparr>"

definition setitem :: "external \<Rightarrow> val \<Rightarrow> val \<Rightarrow> val \<Rightarrow> world \<Rightarrow> error option \<times> world" where
  "setitem X obj key v w =
    (case obj of
       VExt p \<Rightarrow>
         (case raised (X (length (runs w)) (DoSetItem p key v)) of
            Some err \<Rightarrow> (Some err, w)
          | None \<Rightarrow> (None, assigned obj key v w))
     | _ \<Rightarrow> (Some (if opaque obj then Unmodelled else TypeError), w))"

text \<open>
  \<^verbatim>\<open>%env\<close> with a name and a value sets the variable and prints the setting; with a name
  alone it shows the variable, and raises when there is none; with nothing it shows the
  environment.
\<close>

definition set_env :: "string \<Rightarrow> string \<Rightarrow> world \<Rightarrow> world" where
  "set_env var val w =
    printed [VStr (''env: '' @ var @ ''='' @ val)] (w\<lparr>environ := (environ w)(var \<mapsto> val)\<rparr>)"

definition magic_env :: "string \<Rightarrow> world \<Rightarrow> error option \<times> world" where
  "magic_env args w =
    (if \<not> literal args then (Some Unmodelled, w)
     else case env_setting args of
       Some (var, val) \<Rightarrow>
         if var = [] then (Some Unmodelled, w)
         else (None, set_env var val w)
     | None \<Rightarrow>
         (case words args of
            [] \<Rightarrow> (None, w)
          | [key] \<Rightarrow> (if environ w key = None then Some UsageError else None, w)
          | _ \<Rightarrow> (Some UsageError, w)))"

text \<open>
  The globals with which a script ends go into the interactive namespace, but for the
  three names that \<^verbatim>\<open>%run\<close> keeps as they were.
\<close>

definition update_ns :: "(string \<rightharpoonup> val) \<Rightarrow> nat \<Rightarrow> string list \<Rightarrow> (string \<rightharpoonup> val)" where
  "update_ns ns k xs =
    (\<lambda>x. if x \<in> set xs \<and> x \<notin> set [''__name__'', ''__file__'', ''__builtins__'']
         then Some (VGlobal k x) else ns x)"

definition is_flag :: "string \<Rightarrow> bool" where
  "is_flag w = (w \<noteq> [] \<and> hd w = CHR ''-'')"

definition caught :: "reply \<Rightarrow> error list" where
  "caught a = (case raised a of None \<Rightarrow> [] | Some e \<Rightarrow> [e])"

definition ran :: "external \<Rightarrow> run \<Rightarrow> world \<Rightarrow> world" where
  "ran X r w =
    (let k = length (runs w); a = X k (DoRun r)
     in w\<lparr>user_ns := update_ns (user_ns w) k (leaves a),
          runs := runs w @ [r],
          shown := shown w @ caught a\<rparr>)"

text \<open>
  \<^verbatim>\<open>%run\<close> with the script first on its line; options of \<^verbatim>\<open>%run\<close> itself, which would
  come before the script, are outside the model.
\<close>

definition magic_run :: "external \<Rightarrow> string \<Rightarrow> world \<Rightarrow> error option \<times> world" where
  "magic_run X args w =
    (if \<not> plain args \<or> \<not> list_all expandable (words args) then (Some Unmodelled, w)
     else case words args of
       [] \<Rightarrow> (Some Unmodelled, w)
     | script # rest \<Rightarrow>
         if is_flag script then (Some Unmodelled, w)
         else case var_expand (user_ns w) (script # rest) of
           None \<Rightarrow> (Some Unmodelled, w)
         | Some c \<Rightarrow> (None, ran X \<lparr>cmd = c, run_env = environ w\<rparr> w))"

definition spawned :: "string \<Rightarrow> world \<Rightarrow> world" where
  "spawned c w = w\<lparr>procs := procs w @ [c]\<rparr>"

definition shell :: "string \<Rightarrow> world \<Rightarrow> error option \<times> world" where
  "shell c w =
    (if \<not> literal c \<or> CHR ''&'' \<in> set c then (Some Unmodelled, w)
     else (None, bind ''_exit_code'' (VExit (strip c)) (spawned (strip c) w)))"

definition iterate :: "val \<Rightarrow> error + val list" where
  "iterate v =
    (case v of
       VRange n \<Rightarrow> Inr (map (\<lambda>k. VInt (int k)) [0 ..< nat n])
     | VStr s \<Rightarrow> Inr (map (\<lambda>c. VStr [c]) s)
     | _ \<Rightarrow> Inl (if opaque v then Unmodelled else TypeError))"

text \<open>
  A magic written without \<^verbatim>\<open>%\<close> is one only while its name is bound nowhere; with the name
  bound the line is read as Python, which a line that holds a \<^verbatim>\<open>$\<close> is not.
\<close>

fun exec :: "external \<Rightarrow> stmt \<Rightarrow> world \<Rightarrow> error option \<times> world"
and exec_block :: "external \<Rightarrow> stmt list \<Rightarrow> world \<Rightarrow> error option \<times> world"
and exec_for :: "external \<Rightarrow> string \<Rightarrow> val list \<Rightarrow> stmt list \<Rightarrow> world \<Rightarrow> error option \<times> world" where
  "exec X (Import m ms) w = import_module X (m # ms) m (VExt [m]) w"
| "exec X (ImportFrom m x) w = import_module X m x (VExt (m @ [x])) w"
| "exec X (Assign (ToName x) e) w =
    (case eval e w of
       (Inl err, w') \<Rightarrow> (Some err, w')
     | (Inr v, w') \<Rightarrow> (None, bind x v w'))"
| "exec X (Assign (ToItem obj key) e) w =
    (case eval e w of
       (Inl err, w1) \<Rightarrow> (Some err, w1)
     | (Inr v, w1) \<Rightarrow>
         (case eval obj w1 of
            (Inl err, w2) \<Rightarrow> (Some err, w2)
          | (Inr ov, w2) \<Rightarrow>
              (case eval key w2 of
                 (Inl err, w3) \<Rightarrow> (Some err, w3)
               | (Inr kv, w3) \<Rightarrow> setitem X ov kv v w3)))"
| "exec X (For x e body) w =
    (case eval e w of
       (Inl err, w') \<Rightarrow> (Some err, w')
     | (Inr v, w') \<Rightarrow>
         (case iterate v of
            Inl err \<Rightarrow> (Some err, w')
          | Inr vs \<Rightarrow> exec_for X x vs body w'))"
| "exec X (ExprS e) w =
    (case eval e w of
       (Inl err, w') \<Rightarrow> (Some err, w')
     | (Inr v, w') \<Rightarrow> (None, w'))"
| "exec X (Magic percent name args) w =
    (if \<not> percent \<and> resolve (user_ns w) name \<noteq> None
       then (Some (if CHR ''$'' \<in> set args then SyntaxError else Unmodelled), w)
     else if name = ''env'' then magic_env args w
     else if name = ''run'' then magic_run X args w
     else (Some Unmodelled, w))"
| "exec X (Shell c) w = shell c w"
| "exec X (Refused l) w = (Some SyntaxError, w)"
| "exec_block X [] w = (None, w)"
| "exec_block X (s # ss) w =
    (case exec X s w of
       (Some err, w') \<Rightarrow> (Some err, w')
     | (None, w') \<Rightarrow> exec_block X ss w')"
| "exec_for X x [] body w = (None, w)"
| "exec_for X x (v # vs) body w =
    (case exec_block X body (bind x v w) of
       (Some err, w') \<Rightarrow> (Some err, w')
     | (None, w') \<Rightarrow> exec_for X x vs body w')"

text \<open>
  The kernel compiles a cell before it runs any of it: a cell with a refused line raises
  \<^verbatim>\<open>SyntaxError\<close> and leaves the world as it was.
\<close>

definition exec_cell :: "external \<Rightarrow> stmt list \<Rightarrow> world \<Rightarrow> error option \<times> world" where
  "exec_cell X c w = (if compiles c then exec_block X c w else (Some SyntaxError, w))"

text \<open>
  Running the notebook runs its cells from the first to the last; an exception that leaves
  a cell stops the run.
\<close>

fun run_cells :: "external \<Rightarrow> stmt list list \<Rightarrow> world \<Rightarrow> error option \<times> world" where
  "run_cells X [] w = (None, w)"
| "run_cells X (c # cs) w =
    (case exec_cell X c w of
       (Some err, w') \<Rightarrow> (Some err, w')
     | (None, w') \<Rightarrow> run_cells X cs w')"

definition fresh :: world where
  "fresh = \<lparr>environ = Map.empty, user_ns = Map.empty, items = Map.empty,
            runs = [], procs = [], out = [], shown = []\<rparr>"

text \<open>External code that raises nothing and leaves nothing.\<close>

definition quiet :: external where
  "quiet n a = \<lparr>raised = None, leaves = []\<rparr>"


section \<open>What the cells ask for\<close>

text \<open>The settings of the lines that call \<^verbatim>\<open>env\<close>, in the order of the notebook.\<close>

definition env_settings :: "string list \<Rightarrow> (string \<times> string) option list" where
  "env_settings ls =
    map (\<lambda>l. env_setting (magic_args l)) (filter (\<lambda>l. line_kind l = EnvMagic) ls)"

text \<open>
  Python can also write the environment itself, through \<^verbatim>\<open>os.environ\<close> and
  \<^verbatim>\<open>os.putenv\<close>: the Python lines that name them.
\<close>

definition touches_environ :: "string \<Rightarrow> bool" where
  "touches_environ l =
    (is_python l \<and> (\<exists>n \<in> set (py_names l). n \<in> set [''os'', ''environ'', ''putenv'', ''unsetenv'']))"

text \<open>
  The argument list of a script: the words before the first flag are positional (the
  subcommand), and each flag, a word that starts with \<^verbatim>\<open>-\<close>, takes the words up to the
  next flag as its values.
\<close>

fun parse_argv :: "string list \<Rightarrow> string list \<times> (string \<times> string list) list" where
  "parse_argv [] = ([], [])"
| "parse_argv (w # ws) =
    (case parse_argv ws of
       (vals, opts) \<Rightarrow> if is_flag w then ([], (w, vals) # opts) else (w # vals, opts))"

text \<open>
  A line that calls \<^verbatim>\<open>run\<close> names the script first and its arguments after it: the
  script as written, the positional arguments and the flags with their values.
\<close>

definition invocation :: "string \<Rightarrow> string \<times> string list \<times> (string \<times> string list) list" where
  "invocation l =
    (case words (magic_args l) of
       [] \<Rightarrow> ([], [], [])
     | script # args \<Rightarrow> (script, parse_argv args))"

definition invocations :: "string list \<Rightarrow> (string \<times> string list \<times> (string \<times> string list) list) list" where
  "invocations ls = map invocation (filter (\<lambda>l. line_kind l = RunMagic) ls)"

text \<open>A kernel that starts with the process environment \<open>E\<close> and nothing else.\<close>

definition start :: "(string \<rightharpoonup> string) \<Rightarrow> world" where
  "start E = fresh\<lparr>environ := E\<rparr>"

text \<open>
  The Python lines name what they use: the modules they import and the functions they call,
  read off the statements.
\<close>

fun calls :: "expr \<Rightarrow> string list" where
  "calls (Name x) = []"
| "calls (Str s) = []"
| "calls (Num n) = []"
| "calls (Attr e a) = calls e"
| "calls (Call f args) = render_expr f # calls f @ concat (map calls args)"
| "calls (Mod a b) = calls a @ calls b"

fun target_calls :: "target \<Rightarrow> string list" where
  "target_calls (ToName x) = []"
| "target_calls (ToItem obj key) = calls obj @ calls key"

fun stmt_calls :: "stmt \<Rightarrow> string list" where
  "stmt_calls (Import m ms) = []"
| "stmt_calls (ImportFrom m x) = []"
| "stmt_calls (Assign t e) = target_calls t @ calls e"
| "stmt_calls (For x e body) = calls e @ concat (map stmt_calls body)"
| "stmt_calls (ExprS e) = calls e"
| "stmt_calls (Magic percent name args) = []"
| "stmt_calls (Shell c) = []"
| "stmt_calls (Refused l) = []"

fun imported :: "stmt \<Rightarrow> string list" where
  "imported (Import m ms) = [join ''.'' (m # ms)]"
| "imported (ImportFrom m x) = [join ''.'' m]"
| "imported (For x e body) = concat (map imported body)"
| "imported s = []"

text \<open>The shell commands of a statement, and a cell whose loops hold none.\<close>

fun shells :: "stmt \<Rightarrow> string list" where
  "shells (Shell c) = [strip c]"
| "shells (For x e body) = concat (map shells body)"
| "shells s = []"

definition flat :: "stmt list \<Rightarrow> bool" where
  "flat c = list_all (\<lambda>s. case s of Shell c \<Rightarrow> True | _ \<Rightarrow> shells s = []) c"

text \<open>The Python lines with the names they hold.\<close>

definition python_lines :: "string list \<Rightarrow> (kind \<times> string list) list" where
  "python_lines ls = map (\<lambda>l. (line_kind l, py_names l)) (filter is_python ls)"

text \<open>
  The four engines of the external library that the notebook talks about. A run switches
  an engine on by a flag of the benchmark script (\<^verbatim>\<open>-dse\<close>, \<^verbatim>\<open>-dle\<close>, \<^verbatim>\<open>-a\<close>) or, for the
  YASK backend, by the environment it starts in.
\<close>

datatype engine = DSE | DLE | Autotuner | YASK

fun switched :: "engine \<Rightarrow> run \<Rightarrow> bool" where
  "switched DSE r = (VStr ''-dse'' \<in> set (cmd r))"
| "switched DLE r = (VStr ''-dle'' \<in> set (cmd r))"
| "switched Autotuner r = (VStr ''-a'' \<in> set (cmd r))"
| "switched YASK r = (run_env r ''DEVITO_BACKEND'' = Some ''yask'')"

text \<open>
  The value the notebook keeps in its variable \<^verbatim>\<open>benchmark\<close>, the run of the benchmark
  script with given arguments in a given environment, and the environment from the
  thread-pinning cell on.
\<close>

definition benchmark_file :: val where
  "benchmark_file = VExt [''examples'', ''seismic'', ''benchmark'', ''__file__'']"

definition benchmark_with :: "string \<Rightarrow> (string \<rightharpoonup> string) \<Rightarrow> run" where
  "benchmark_with args env = \<lparr>cmd = benchmark_file # map VStr (words args), run_env = env\<rparr>"

definition pinned :: "(string \<rightharpoonup> string) \<Rightarrow> (string \<rightharpoonup> string)" where
  "pinned E =
    E(''DEVITO_OPENMP'' \<mapsto> ''1'', ''OMP_NUM_THREADS'' \<mapsto> ''8'',
      ''KMP_HW_SUBSET'' \<mapsto> ''8c,1t'', ''KMP_AFFINITY'' \<mapsto> ''compact'',
      ''DEVITO_ARCH'' \<mapsto> ''intel'')"

text \<open>
  A line defines something when it starts a function or a class, decorates one, or holds a
  \<^verbatim>\<open>lambda\<close>. A line decides or handles something when it starts a \<^verbatim>\<open>try\<close>, a branch, a
  \<^verbatim>\<open>while\<close> or a \<^verbatim>\<open>with\<close>, is one of the other keyword statements (\<^verbatim>\<open>raise\<close>,
  \<^verbatim>\<open>assert\<close> and so on) or holds a conditional expression.
\<close>

definition defining :: "string \<Rightarrow> bool" where
  "defining l =
    (line_kind l \<in> set [FunctionDef, ClassDef, Decorator]
     \<or> (is_python l \<and> ''lambda'' \<in> set (py_names l)))"

definition handles :: "string \<Rightarrow> bool" where
  "handles l =
    (line_kind l \<in> set [TryStmt, Branch, WhileLoop, WithStmt, OtherKeyword]
     \<or> (is_python l \<and> (\<exists>n \<in> set (py_names l). n \<in> set [''if'', ''else'', ''try'', ''except''])))"

text \<open>A line can read the exit status of a shell command only by naming its variable.\<close>

fun contains :: "string \<Rightarrow> string \<Rightarrow> bool" where
  "contains sub [] = (sub = [])"
| "contains sub (c # cs) = (prefix sub (c # cs) \<or> contains sub cs)"

definition reads_status :: "string \<Rightarrow> bool" where
  "reads_status l = contains ''_exit_code'' l"

text \<open>
  The cells that the kernel compiles, and the runs of the benchmark script that they ask
  for on a kernel started in the environment \<open>E\<close>, in their order.
\<close>

definition compiled :: "stmt list list" where
  "compiled = filter compiles notebook"

definition notebook_runs :: "(string \<rightharpoonup> string) \<Rightarrow> run list" where
  "notebook_runs E =
    [benchmark_with ''--help'' E,
     benchmark_with ''run -P acoustic'' E,
     benchmark_with ''run -P acoustic -so 8 -d 256 256 256 --tn 50'' (pinned E),
     benchmark_with ''run -P acoustic -so 8 -d 256 256 256 --tn 50'' (pinned E),
     benchmark_with ''run -P acoustic -so 8 -d 256 256 256 --tn 50'' (pinned E),
     benchmark_with ''run -P acoustic -so 8 -d 256 256 256 --tn 50 -dse advanced'' (pinned E),
     benchmark_with ''run -P acoustic -so 8 -d 512 512 512 --tn 50 -dse advanced'' (pinned E),
     benchmark_with ''run -P acoustic -so 8 -d 512 512 512 --tn 50 -dse advanced -dle advanced''
       (pinned E)]"

text \<open>
  External code is sparing when no script ends with a global named \<^verbatim>\<open>benchmark\<close>,
  \<^verbatim>\<open>run\<close>, \<^verbatim>\<open>range\<close> or \<^verbatim>\<open>print\<close>, the four names whose meaning the lines of the
  notebook rely on. It is calm when, besides, no import and no assignment into a library's
  object raises. What the scripts raise is left open.
\<close>

definition spared :: "string list" where
  "spared = [''benchmark'', ''run'', ''range'', ''print'']"

definition sparing :: "external \<Rightarrow> bool" where
  "sparing X = (\<forall>k r x. x \<in> set (leaves (X k (DoRun r))) \<longrightarrow> x \<notin> set spared)"

definition calm :: "external \<Rightarrow> bool" where
  "calm X =
    ((\<forall>k p. raised (X k (DoImport p)) = None)
     \<and> (\<forall>k p key v. raised (X k (DoSetItem p key v)) = None)
     \<and> sparing X)"

text \<open>
  The names on which a run line and the loop rely, as the notebook's own statements leave
  them.
\<close>

definition steady :: "world \<Rightarrow> bool" where
  "steady w =
    (user_ns w ''benchmark'' = Some benchmark_file \<and> user_ns w ''run'' = None
     \<and> user_ns w ''range'' = None \<and> user_ns w ''print'' = None)"

text \<open>What the scripts of a list of runs raise, the first of them being run number \<open>k\<close>.\<close>

fun errors_from :: "external \<Rightarrow> nat \<Rightarrow> run list \<Rightarrow> error list" where
  "errors_from X k [] = []"
| "errors_from X k (r # rs) = caught (X k (DoRun r)) @ errors_from X (Suc k) rs"

text \<open>External code whose second run of a script raises, and nothing else.\<close>

definition fails_second :: external where
  "fails_second k a =
    (case a of
       DoRun r \<Rightarrow> \<lparr>raised = (if k = 1 then Some (Raised ''failed'') else None), leaves = []\<rparr>
     | _ \<Rightarrow> \<lparr>raised = None, leaves = []\<rparr>)"

text \<open>
  An exception of a script run surfaces when, for every run the code asked for and the
  script raised in, that run is the last thing that happened and its exception is the
  outcome.
\<close>

definition surfaces :: "external \<Rightarrow> world \<Rightarrow> error option \<times> world \<Rightarrow> bool" where
  "surfaces X w res =
    (prefix (runs w) (runs (snd res)) \<and>
     (\<forall>k e. length (runs w) \<le> k \<and> k < length (runs (snd res)) \<and>
        raised (X k (DoRun (runs (snd res) ! k))) = Some e \<longrightarrow>
        fst res = Some e \<and> Suc k = length (runs (snd res))))"

text \<open>
  The thread-pinning cell up to its loop: three settings, the import and the assignment
  into the configuration.
\<close>

definition before_loop :: "world \<Rightarrow> world" where
  "before_loop w =
    assigned (VExt [''devito'', ''configuration'']) (VStr ''compiler'') (VStr ''intel'')
      (bind ''configuration'' (VExt [''devito'', ''configuration''])
        (set_env ''DEVITO_ARCH'' ''intel''
          (set_env ''KMP_AFFINITY'' ''compact'' (set_env ''KMP_HW_SUBSET'' ''8c,1t'' w))))"

text \<open>
  One round of the loop of the thread-pinning cell: the index is bound, the line is
  printed, the script is run.
\<close>

definition lap :: "external \<Rightarrow> int \<Rightarrow> world \<Rightarrow> world" where
  "lap X j w =
    ran X (benchmark_with ''run -P acoustic -so 8 -d 256 256 256 --tn 50'' (environ w))
      (printed [VStr (''Run '' @ dec_int j)] (bind ''i'' (VInt j) w))"

text \<open>
  The variables that the \<^verbatim>\<open>env\<close> lines of a statement set, and an environment that agrees
  with \<open>E\<close> but for settings of other variables than DEVITO_AUTOTUNING and DEVITO_BACKEND:
  it has these two as \<open>E\<close> has them and has lost no variable of \<open>E\<close>. A world keeps to \<open>E\<close>
  when its environment and the environment of each of its runs agree with \<open>E\<close>.
\<close>

fun sets :: "stmt \<Rightarrow> string list" where
  "sets (Magic percent name args) =
    (if name = ''env'' then (case env_setting args of Some (var, val) \<Rightarrow> [var] | None \<Rightarrow> [])
     else [])"
| "sets (For x e body) = concat (map sets body)"
| "sets s = []"

definition agree :: "(string \<rightharpoonup> string) \<Rightarrow> (string \<rightharpoonup> string) \<Rightarrow> bool" where
  "agree E env =
    (env ''DEVITO_AUTOTUNING'' = E ''DEVITO_AUTOTUNING''
     \<and> env ''DEVITO_BACKEND'' = E ''DEVITO_BACKEND'' \<and> dom E \<subseteq> dom env)"

definition keeps :: "(string \<rightharpoonup> string) \<Rightarrow> world \<Rightarrow> bool" where
  "keeps E w = (agree E (environ w) \<and> list_all (\<lambda>r. agree E (run_env r)) (runs w))"

definition mild :: "stmt \<Rightarrow> bool" where
  "mild s = list_all (\<lambda>x. x \<notin> set [''DEVITO_AUTOTUNING'', ''DEVITO_BACKEND'']) (sets s)"


section \<open>Lemmas\<close>

subsection \<open>The lines, read\<close>

lemma kinds_of_code_lines:
  "map line_kind code_lines =
    [ImportStmt, NameAssign,
     Comment, RunMagic,
     RunMagic,
     EnvMagic,
     ShellEscape,
     EnvMagic,
     Comment, EnvMagic, EnvMagic, Comment, EnvMagic, Comment, ImportStmt, ItemAssign, Blank,
       ForLoop, ExprStmt, RunMagic,
     RunMagic,
     RunMagic,
     RunMagic,
     EnvMagic, RunMagic,
     EnvMagic, RunMagic]"
  by code_simp

text \<open>
  Read as the kernel reads them, cell by cell, the second lines of cells 24 and 27 are no
  Python.
\<close>

lemma kinds_of_code_cells:
  "map cell_kinds code_cells =
    [[ImportStmt, NameAssign],
     [Comment, RunMagic],
     [RunMagic],
     [EnvMagic],
     [ShellEscape],
     [EnvMagic],
     [Comment, EnvMagic, EnvMagic, Comment, EnvMagic, Comment, ImportStmt, ItemAssign, Blank,
       ForLoop, ExprStmt, RunMagic],
     [RunMagic],
     [RunMagic],
     [RunMagic],
     [EnvMagic, NoPython],
     [EnvMagic, NoPython]]"
  by code_simp

text \<open>The statements of section 3 are the lines of the cells, as the kernel reads them.\<close>

lemma notebook_renders_code_cells:
  "map (map canonical \<circ> render_cell) notebook = map (map canonical \<circ> statement_lines) code_cells"
  by code_simp

lemma notebook_reads_code_cells:
  "map (concat \<circ> map stmt_kinds) notebook = map read_kinds code_cells"
  by code_simp

lemma cells_compiled:
  "map compiles notebook = map (\<lambda>c. NoPython \<notin> set (cell_kinds c)) code_cells"
  by code_simp

lemma refused_cells:
  "map (\<lambda>c. NoPython \<in> set (cell_kinds c)) code_cells =
    [False, False, False, False, False, False, False, False, False, False, True, True]"
  by code_simp

lemma compiled_cells:
  "compiled = [prog_2, prog_3, prog_5, prog_7, prog_9, prog_11, prog_14, prog_17, prog_20, prog_22]"
  by code_simp

lemma notebook_split: "notebook = compiled @ [prog_24, prog_27]"
  by code_simp

lemma env_settings_code_lines:
  "env_settings code_lines =
    [Some (''DEVITO_OPENMP'', ''1''), Some (''OMP_NUM_THREADS'', ''8''),
     Some (''KMP_HW_SUBSET'', ''8c,1t''), Some (''KMP_AFFINITY'', ''compact''),
     Some (''DEVITO_ARCH'', ''intel''), Some (''DEVITO_AUTOTUNING'', ''aggressive''),
     Some (''DEVITO_BACKEND'', ''yask'')]"
  by code_simp

lemma no_line_touches_environ: "filter touches_environ code_lines = []"
  by code_simp

lemma invocations_code_lines:
  "invocations code_lines =
    [(''$benchmark'', [], [(''--help'', [])]),
     (''$benchmark'', [''run''], [(''-P'', [''acoustic''])]),
     (''$benchmark'', [''run''],
        [(''-P'', [''acoustic'']), (''-so'', [''8'']), (''-d'', [''256'', ''256'', ''256'']),
         (''--tn'', [''50''])]),
     (''$benchmark'', [''run''],
        [(''-P'', [''acoustic'']), (''-so'', [''8'']), (''-d'', [''256'', ''256'', ''256'']),
         (''--tn'', [''50'']), (''-dse'', [''advanced''])]),
     (''$benchmark'', [''run''],
        [(''-P'', [''acoustic'']), (''-so'', [''8'']), (''-d'', [''512'', ''512'', ''512'']),
         (''--tn'', [''50'']), (''-dse'', [''advanced''])]),
     (''$benchmark'', [''run''],
        [(''-P'', [''acoustic'']), (''-so'', [''8'']), (''-d'', [''512'', ''512'', ''512'']),
         (''--tn'', [''50'']), (''-dse'', [''advanced'']), (''-dle'', [''advanced''])]),
     (''$benchmark'', [''run''],
        [(''-P'', [''acoustic'']), (''-so'', [''8'']), (''-d'', [''512'', ''512'', ''512'']),
         (''--tn'', [''50'']), (''-dse'', [''advanced'']), (''-dle'', [''advanced'']),
         (''-a'', [])]),
     (''$benchmark'', [''run''],
        [(''-P'', [''acoustic'']), (''-so'', [''8'']), (''-d'', [''512'', ''512'', ''512'']),
         (''--tn'', [''50'']), (''-dse'', [''advanced''])])]"
  by code_simp

text \<open>
  The lines written as runs hold no quote, backslash, wildcard or tilde, so that their
  words are the words a shell splits them into; and the \<^verbatim>\<open>env\<close> lines and the shell
  escape hold nothing to expand.
\<close>

lemma run_lines_plain:
  "list_all (\<lambda>l. plain (magic_args l)) (filter (\<lambda>l. line_kind l = RunMagic) code_lines)"
  by code_simp

lemma other_lines_literal:
  "list_all literal (filter (\<lambda>l. line_kind l \<in> set [EnvMagic, ShellEscape]) code_lines)"
  by code_simp

lemma no_line_defines: "filter defining code_lines = []"
  by code_simp

lemma no_line_handles: "filter handles code_lines = []"
  by code_simp

lemma no_line_reads_status: "filter reads_status code_lines = []"
  by code_simp

lemma python_lines_code_lines:
  "python_lines code_lines =
    [(ImportStmt, [''import'', ''examples'', ''seismic'', ''benchmark'']),
     (NameAssign, [''benchmark'', ''examples'', ''seismic'', ''benchmark'', ''__file__'']),
     (ImportStmt, [''from'', ''devito'', ''import'', ''configuration'']),
     (ItemAssign, [''configuration'']),
     (ForLoop, [''for'', ''i'', ''in'', ''range'', ''3'']),
     (ExprStmt, [''print'', ''i''])]"
  by code_simp

lemma calls_of_notebook: "concat (map stmt_calls (concat notebook)) = [''range'', ''print'']"
  by code_simp

lemma imports_of_notebook:
  "concat (map imported (concat notebook)) = [''examples.seismic.benchmark'', ''devito'']"
  by code_simp

lemma shell_lines: "filter (\<lambda>l. line_kind l = ShellEscape) code_lines = [''! lscpu'']"
  by code_simp


subsection \<open>The updates of the world, field by field\<close>

lemma bind_fields [simp]:
  "environ (bind x v w) = environ w" "items (bind x v w) = items w" "runs (bind x v w) = runs w"
  "procs (bind x v w) = procs w" "out (bind x v w) = out w" "shown (bind x v w) = shown w"
  "user_ns (bind x v w) = (user_ns w)(x \<mapsto> v)"
  by (simp_all add: bind_def)

lemma printed_fields [simp]:
  "environ (printed vs w) = environ w" "items (printed vs w) = items w"
  "runs (printed vs w) = runs w" "procs (printed vs w) = procs w"
  "out (printed vs w) = out w @ [vs]" "shown (printed vs w) = shown w"
  "user_ns (printed vs w) = user_ns w"
  by (simp_all add: printed_def)

lemma assigned_fields [simp]:
  "environ (assigned obj key v w) = environ w"
  "items (assigned obj key v w) = (items w)((obj, key) \<mapsto> v)"
  "runs (assigned obj key v w) = runs w" "procs (assigned obj key v w) = procs w"
  "out (assigned obj key v w) = out w" "shown (assigned obj key v w) = shown w"
  "user_ns (assigned obj key v w) = user_ns w"
  by (simp_all add: assigned_def)

lemma set_env_fields [simp]:
  "environ (set_env var val w) = (environ w)(var \<mapsto> val)"
  "items (set_env var val w) = items w"
  "runs (set_env var val w) = runs w" "procs (set_env var val w) = procs w"
  "out (set_env var val w) = out w @ [[VStr (''env: '' @ var @ ''='' @ val)]]"
  "shown (set_env var val w) = shown w"
  "user_ns (set_env var val w) = user_ns w"
  by (simp_all add: set_env_def)

lemma spawned_fields [simp]:
  "environ (spawned c w) = environ w" "items (spawned c w) = items w"
  "runs (spawned c w) = runs w" "procs (spawned c w) = procs w @ [c]"
  "out (spawned c w) = out w" "shown (spawned c w) = shown w"
  "user_ns (spawned c w) = user_ns w"
  by (simp_all add: spawned_def)

lemma ran_fields [simp]:
  "environ (ran X r w) = environ w" "items (ran X r w) = items w"
  "runs (ran X r w) = runs w @ [r]" "procs (ran X r w) = procs w"
  "out (ran X r w) = out w"
  "shown (ran X r w) = shown w @ caught (X (length (runs w)) (DoRun r))"
  "user_ns (ran X r w) =
     update_ns (user_ns w) (length (runs w)) (leaves (X (length (runs w)) (DoRun r)))"
  by (simp_all add: ran_def Let_def)

lemma start_fields [simp]:
  "environ (start E) = E" "items (start E) = Map.empty" "runs (start E) = []"
  "procs (start E) = []" "out (start E) = []" "shown (start E) = []"
  "user_ns (start E) = Map.empty"
  by (simp_all add: start_def fresh_def)

lemma start_empty: "start Map.empty = fresh"
  by (simp add: start_def fresh_def)

lemma lap_fields [simp]:
  "environ (lap X j w) = environ w" "items (lap X j w) = items w"
  "procs (lap X j w) = procs w"
  "runs (lap X j w) =
     runs w @ [benchmark_with ''run -P acoustic -so 8 -d 256 256 256 --tn 50'' (environ w)]"
  by (simp_all add: lap_def)

lemma calm_sparing [simp]: "calm X \<Longrightarrow> sparing X"
  by (simp add: calm_def)

lemma spared_kept:
  "sparing X \<Longrightarrow> x \<in> set spared \<Longrightarrow> update_ns ns k (leaves (X k' (DoRun r))) x = ns x"
  by (auto simp: sparing_def update_ns_def)

lemma steady_bind [simp]: "x \<notin> set spared \<Longrightarrow> steady (bind x v w) = steady w"
  by (auto simp: steady_def spared_def)

lemma steady_others [simp]:
  "steady (printed vs w) = steady w" "steady (assigned obj key v w) = steady w"
  "steady (set_env var val w) = steady w" "steady (spawned c w) = steady w"
  by (simp_all add: steady_def)

lemma steady_ran [simp]: "sparing X \<Longrightarrow> steady (ran X r w) = steady w"
  by (simp add: steady_def spared_kept spared_def)

lemma steady_lap [simp]: "sparing X \<Longrightarrow> steady (lap X j w) = steady w"
  by (simp add: lap_def spared_def)

lemma steady_resolve:
  "steady w \<Longrightarrow> resolve (user_ns w) ''benchmark'' = Some benchmark_file"
  "steady w \<Longrightarrow> resolve (user_ns w) ''run'' = None"
  "steady w \<Longrightarrow> resolve (user_ns w) ''range'' = Some (VBuiltin ''range'')"
  "steady w \<Longrightarrow> resolve (user_ns w) ''print'' = Some (VBuiltin ''print'')"
  by (simp_all add: steady_def resolve_def builtins_def)

subsection \<open>One line that runs the script\<close>

lemma words_facts:
  "words ''$benchmark --help'' = [''$benchmark'', ''--help'']"
  "words ''$benchmark run -P acoustic'' = [''$benchmark'', ''run'', ''-P'', ''acoustic'']"
  "words ''$benchmark run -P acoustic -so 8 -d 256 256 256 --tn 50'' =
     [''$benchmark'', ''run'', ''-P'', ''acoustic'', ''-so'', ''8'',
      ''-d'', ''256'', ''256'', ''256'', ''--tn'', ''50'']"
  "words ''$benchmark run -P acoustic -so 8 -d 256 256 256 --tn 50 -dse advanced'' =
     [''$benchmark'', ''run'', ''-P'', ''acoustic'', ''-so'', ''8'',
      ''-d'', ''256'', ''256'', ''256'', ''--tn'', ''50'', ''-dse'', ''advanced'']"
  "words ''$benchmark run -P acoustic -so 8 -d 512 512 512 --tn 50 -dse advanced'' =
     [''$benchmark'', ''run'', ''-P'', ''acoustic'', ''-so'', ''8'',
      ''-d'', ''512'', ''512'', ''512'', ''--tn'', ''50'', ''-dse'', ''advanced'']"
  "words ''$benchmark run -P acoustic -so 8 -d 512 512 512 --tn 50 -dse advanced -dle advanced'' =
     [''$benchmark'', ''run'', ''-P'', ''acoustic'', ''-so'', ''8'',
      ''-d'', ''512'', ''512'', ''512'', ''--tn'', ''50'', ''-dse'', ''advanced'',
      ''-dle'', ''advanced'']"
  by code_simp+

lemma argument_facts:
  "words ''--help'' = [''--help'']"
  "words ''run -P acoustic'' = [''run'', ''-P'', ''acoustic'']"
  "words ''run -P acoustic -so 8 -d 256 256 256 --tn 50'' =
     [''run'', ''-P'', ''acoustic'', ''-so'', ''8'', ''-d'', ''256'', ''256'', ''256'', ''--tn'', ''50'']"
  "words ''run -P acoustic -so 8 -d 256 256 256 --tn 50 -dse advanced'' =
     [''run'', ''-P'', ''acoustic'', ''-so'', ''8'', ''-d'', ''256'', ''256'', ''256'', ''--tn'', ''50'',
      ''-dse'', ''advanced'']"
  "words ''run -P acoustic -so 8 -d 512 512 512 --tn 50 -dse advanced'' =
     [''run'', ''-P'', ''acoustic'', ''-so'', ''8'', ''-d'', ''512'', ''512'', ''512'', ''--tn'', ''50'',
      ''-dse'', ''advanced'']"
  "words ''run -P acoustic -so 8 -d 512 512 512 --tn 50 -dse advanced -dle advanced'' =
     [''run'', ''-P'', ''acoustic'', ''-so'', ''8'', ''-d'', ''512'', ''512'', ''512'', ''--tn'', ''50'',
      ''-dse'', ''advanced'', ''-dle'', ''advanced'']"
  by code_simp+

lemma plain_facts:
  "plain ''$benchmark --help''"
  "plain ''$benchmark run -P acoustic''"
  "plain ''$benchmark run -P acoustic -so 8 -d 256 256 256 --tn 50''"
  "plain ''$benchmark run -P acoustic -so 8 -d 256 256 256 --tn 50 -dse advanced''"
  "plain ''$benchmark run -P acoustic -so 8 -d 512 512 512 --tn 50 -dse advanced''"
  "plain ''$benchmark run -P acoustic -so 8 -d 512 512 512 --tn 50 -dse advanced -dle advanced''"
  by code_simp+

lemma env_facts:
  "env_setting ''DEVITO_OPENMP=1'' = Some (''DEVITO_OPENMP'', ''1'')"
  "env_setting ''OMP_NUM_THREADS=8'' = Some (''OMP_NUM_THREADS'', ''8'')"
  "env_setting ''KMP_HW_SUBSET=8c,1t'' = Some (''KMP_HW_SUBSET'', ''8c,1t'')"
  "env_setting ''KMP_AFFINITY=compact'' = Some (''KMP_AFFINITY'', ''compact'')"
  "env_setting ''DEVITO_ARCH=intel'' = Some (''DEVITO_ARCH'', ''intel'')"
  "literal ''DEVITO_OPENMP=1''" "literal ''OMP_NUM_THREADS=8''" "literal ''KMP_HW_SUBSET=8c,1t''"
  "literal ''KMP_AFFINITY=compact''" "literal ''DEVITO_ARCH=intel''"
  by code_simp+

lemma loop_facts:
  "strip '' lscpu'' = ''lscpu''"
  "literal '' lscpu''"
  "CHR ''&'' \<notin> set '' lscpu''"
  "iterate (VRange 3) = Inr [VInt 0, VInt 1, VInt 2]"
  "binop_mod (VStr ''Run %d'') (VInt 0) = Inr (VStr ''Run 0'')"
  "binop_mod (VStr ''Run %d'') (VInt 1) = Inr (VStr ''Run 1'')"
  "binop_mod (VStr ''Run %d'') (VInt 2) = Inr (VStr ''Run 2'')"
  "dec_int 0 = ''0''" "dec_int 1 = ''1''" "dec_int 2 = ''2''"
  by code_simp+

lemma no_reference: "CHR ''$'' \<notin> set w \<Longrightarrow> reference w = None"
  by (cases w) (auto simp: reference_def)

lemma gather_plain:
  "list_all (\<lambda>w. CHR ''$'' \<notin> set w) ws \<Longrightarrow> gather (map (expand_word ns) ws) = Some (map VStr ws)"
  by (induction ws) (simp_all add: expand_word_def no_reference)

lemma unresolved_plain:
  "list_all (\<lambda>w. CHR ''$'' \<notin> set w) ws \<Longrightarrow> unresolved ns ws = []"
  by (induction ws) (simp_all add: unresolved_def no_reference)

lemma expandable_plain:
  "list_all (\<lambda>w. CHR ''$'' \<notin> set w) ws \<Longrightarrow> list_all expandable ws"
  by (induction ws) (simp_all add: expandable_def no_reference)

lemma expandable_benchmark: "expandable ''$benchmark''"
  by code_simp

lemma run_line:
  assumes "steady w" and "plain args" and "words args = ''$benchmark'' # rest"
    and "list_all (\<lambda>w. CHR ''$'' \<notin> set w) rest"
  shows "magic_run X args w =
    (None, ran X \<lparr>cmd = benchmark_file # map VStr rest, run_env = environ w\<rparr> w)"
proof -
  have a: "list_all expandable (words args)"
    using assms(3,4) by (simp add: expandable_benchmark expandable_plain)
  have b: "unresolved (user_ns w) (''$benchmark'' # rest) = []"
    using assms(1,4) unresolved_plain [of rest "user_ns w"]
    by (simp add: unresolved_def reference_def steady_resolve)
  have c: "gather (map (expand_word (user_ns w)) (''$benchmark'' # rest))
      = Some (benchmark_file # map VStr rest)"
    using assms(1,4) gather_plain [of rest "user_ns w"]
    by (simp add: expand_word_def reference_def steady_resolve text_words_def benchmark_file_def)
  show ?thesis
    using assms(2,3) a b c by (simp add: magic_run_def var_expand_def is_flag_def)
qed

subsection \<open>The cells, one by one\<close>

lemma run_lines:
  "steady w \<Longrightarrow> magic_run X ''$benchmark --help'' w =
     (None, ran X (benchmark_with ''--help'' (environ w)) w)"
  "steady w \<Longrightarrow> magic_run X ''$benchmark run -P acoustic'' w =
     (None, ran X (benchmark_with ''run -P acoustic'' (environ w)) w)"
  "steady w \<Longrightarrow> magic_run X ''$benchmark run -P acoustic -so 8 -d 256 256 256 --tn 50'' w =
     (None, ran X (benchmark_with ''run -P acoustic -so 8 -d 256 256 256 --tn 50'' (environ w)) w)"
  "steady w \<Longrightarrow>
   magic_run X ''$benchmark run -P acoustic -so 8 -d 256 256 256 --tn 50 -dse advanced'' w =
     (None, ran X (benchmark_with ''run -P acoustic -so 8 -d 256 256 256 --tn 50 -dse advanced''
        (environ w)) w)"
  "steady w \<Longrightarrow>
   magic_run X ''$benchmark run -P acoustic -so 8 -d 512 512 512 --tn 50 -dse advanced'' w =
     (None, ran X (benchmark_with ''run -P acoustic -so 8 -d 512 512 512 --tn 50 -dse advanced''
        (environ w)) w)"
  "steady w \<Longrightarrow>
   magic_run X ''$benchmark run -P acoustic -so 8 -d 512 512 512 --tn 50 -dse advanced -dle advanced'' w =
     (None, ran X (benchmark_with
        ''run -P acoustic -so 8 -d 512 512 512 --tn 50 -dse advanced -dle advanced'' (environ w)) w)"
  by (simp_all add: run_line [OF _ plain_facts(1) words_facts(1)]
      run_line [OF _ plain_facts(2) words_facts(2)] run_line [OF _ plain_facts(3) words_facts(3)]
      run_line [OF _ plain_facts(4) words_facts(4)] run_line [OF _ plain_facts(5) words_facts(5)]
      run_line [OF _ plain_facts(6) words_facts(6)] benchmark_with_def argument_facts)

lemma env_line:
  "literal args \<Longrightarrow> env_setting args = Some (var, val) \<Longrightarrow> var \<noteq> [] \<Longrightarrow>
   magic_env args w = (None, set_env var val w)"
  by (simp add: magic_env_def)

lemmas env_lines =
  env_line [OF env_facts(6) env_facts(1)] env_line [OF env_facts(7) env_facts(2)]
  env_line [OF env_facts(8) env_facts(3)] env_line [OF env_facts(9) env_facts(4)]
  env_line [OF env_facts(10) env_facts(5)]

lemma cell_2:
  "raised (X (length (runs w)) (DoImport [''examples'', ''seismic'', ''benchmark''])) = None \<Longrightarrow>
   exec_cell X prog_2 w =
    (None, bind ''benchmark'' benchmark_file (bind ''examples'' (VExt [''examples'']) w))"
  by (simp add: exec_cell_def compiles_def prog_2_def import_module_def getattr_def resolve_def
      benchmark_file_def)

lemma cell_3:
  "steady w \<Longrightarrow> exec_cell X prog_3 w = (None, ran X (benchmark_with ''--help'' (environ w)) w)"
  by (simp add: exec_cell_def compiles_def prog_3_def run_lines)

lemma cell_5:
  "steady w \<Longrightarrow>
   exec_cell X prog_5 w = (None, ran X (benchmark_with ''run -P acoustic'' (environ w)) w)"
  by (simp add: exec_cell_def compiles_def prog_5_def run_lines)

lemma cell_7: "exec_cell X prog_7 w = (None, set_env ''DEVITO_OPENMP'' ''1'' w)"
  by (simp add: exec_cell_def compiles_def prog_7_def env_lines)

lemma cell_9:
  "exec_cell X prog_9 w = (None, bind ''_exit_code'' (VExit ''lscpu'') (spawned ''lscpu'' w))"
  by (simp add: exec_cell_def compiles_def prog_9_def shell_def loop_facts)

lemma cell_11: "exec_cell X prog_11 w = (None, set_env ''OMP_NUM_THREADS'' ''8'' w)"
  by (simp add: exec_cell_def compiles_def prog_11_def env_lines)

lemma steady_lookup:
  "steady w \<Longrightarrow> user_ns w ''benchmark'' = Some benchmark_file"
  "steady w \<Longrightarrow> user_ns w ''run'' = None"
  "steady w \<Longrightarrow> user_ns w ''range'' = None"
  "steady w \<Longrightarrow> user_ns w ''print'' = None"
  by (simp_all add: steady_def)

lemma lap_step:
  "sparing X \<Longrightarrow> steady w \<Longrightarrow> j \<in> {0, 1, 2} \<Longrightarrow>
   exec_block X
     [ExprS (Call (Name ''print'') [Mod (Str ''Run %d'') (Name ''i'')]),
      Magic True ''run'' ''$benchmark run -P acoustic -so 8 -d 256 256 256 --tn 50'']
     (bind ''i'' (VInt j) w) = (None, lap X j w)"
  by (auto simp: steady_lookup resolve_def builtins_def call_def loop_facts run_lines lap_def
      spared_def)

lemma steady_before_loop [simp]: "steady (before_loop w) = steady w"
  by (simp add: before_loop_def spared_def)

lemma loop_14:
  assumes "sparing X" "steady w"
  shows "exec_block X
     [For ''i'' (Call (Name ''range'') [Num 3])
       [ExprS (Call (Name ''print'') [Mod (Str ''Run %d'') (Name ''i'')]),
        Magic True ''run'' ''$benchmark run -P acoustic -so 8 -d 256 256 256 --tn 50'']] w
     = (None, lap X 2 (lap X 1 (lap X 0 w)))"
proof -
  have loop: "exec_for X ''i'' [VInt 0, VInt 1, VInt 2]
     [ExprS (Call (Name ''print'') [Mod (Str ''Run %d'') (Name ''i'')]),
      Magic True ''run'' ''$benchmark run -P acoustic -so 8 -d 256 256 256 --tn 50'']
     w = (None, lap X 2 (lap X 1 (lap X 0 w)))"
    using assms by (simp add: lap_step del: exec_block.simps)
  have head: "eval (Call (Name ''range'') [Num 3]) w = (Inr (VRange 3), w)"
    using assms(2) by (simp add: steady_resolve call_def)
  show ?thesis
    by (simp add: head loop loop_facts del: exec_for.simps eval.simps)
qed

text \<open>
  The thread-pinning cell stops before its loop when the import or the assignment into the
  configuration raises, and otherwise runs the loop to its end.
\<close>

lemma cell_14_any:
  assumes "sparing X" "steady w"
  shows "exec_cell X prog_14 w =
    (case raised (X (length (runs w)) (DoImport [''devito''])) of
       Some err \<Rightarrow>
         (Some err, set_env ''DEVITO_ARCH'' ''intel''
            (set_env ''KMP_AFFINITY'' ''compact'' (set_env ''KMP_HW_SUBSET'' ''8c,1t'' w)))
     | None \<Rightarrow>
         (case raised (X (length (runs w))
                 (DoSetItem [''devito'', ''configuration''] (VStr ''compiler'') (VStr ''intel''))) of
            Some err \<Rightarrow>
              (Some err, bind ''configuration'' (VExt [''devito'', ''configuration''])
                 (set_env ''DEVITO_ARCH'' ''intel''
                   (set_env ''KMP_AFFINITY'' ''compact'' (set_env ''KMP_HW_SUBSET'' ''8c,1t'' w))))
          | None \<Rightarrow> (None, lap X 2 (lap X 1 (lap X 0 (before_loop w))))))"
proof -
  have l: "exec_block X
     [For ''i'' (Call (Name ''range'') [Num 3])
       [ExprS (Call (Name ''print'') [Mod (Str ''Run %d'') (Name ''i'')]),
        Magic True ''run'' ''$benchmark run -P acoustic -so 8 -d 256 256 256 --tn 50'']]
     (before_loop w) = (None, lap X 2 (lap X 1 (lap X 0 (before_loop w))))"
    using assms by (simp add: loop_14 del: exec_block.simps exec.simps)
  show ?thesis
    unfolding exec_cell_def prog_14_def
    using l
    by (simp add: compiles_def env_lines import_module_def setitem_def resolve_def
        before_loop_def split: option.splits del: exec.simps(5))
qed

lemma cell_14:
  assumes "calm X" "steady w"
  shows "exec_cell X prog_14 w = (None, lap X 2 (lap X 1 (lap X 0 (before_loop w))))"
proof -
  have i: "raised (X k (DoImport p)) = None" and s: "raised (X k (DoSetItem p key v)) = None"
    for k p key v
    using assms(1) by (simp_all add: calm_def)
  from assms show ?thesis by (simp add: cell_14_any i s)
qed

lemma automagic_cells:
  "steady w \<Longrightarrow> exec_cell X prog_17 w =
     (None, ran X (benchmark_with ''run -P acoustic -so 8 -d 256 256 256 --tn 50 -dse advanced''
        (environ w)) w)"
  "steady w \<Longrightarrow> exec_cell X prog_20 w =
     (None, ran X (benchmark_with ''run -P acoustic -so 8 -d 512 512 512 --tn 50 -dse advanced''
        (environ w)) w)"
  "steady w \<Longrightarrow> exec_cell X prog_22 w =
     (None, ran X (benchmark_with
        ''run -P acoustic -so 8 -d 512 512 512 --tn 50 -dse advanced -dle advanced'' (environ w)) w)"
  by (simp_all add: exec_cell_def compiles_def prog_17_def prog_20_def prog_22_def run_lines
      steady_resolve)

lemma broken_cells:
  "exec_cell X prog_24 w = (Some SyntaxError, w)"
  "exec_cell X prog_27 w = (Some SyntaxError, w)"
  by (simp_all add: exec_cell_def compiles_def prog_24_def prog_27_def)

subsection \<open>The run of the cells that compile\<close>

text \<open>
  With calm external code the ten cells that compile run to their end, whatever the
  scripts raise.
\<close>

lemma before_loop_fields [simp]:
  "environ (before_loop w) =
     (environ w)(''KMP_HW_SUBSET'' \<mapsto> ''8c,1t'', ''KMP_AFFINITY'' \<mapsto> ''compact'',
                 ''DEVITO_ARCH'' \<mapsto> ''intel'')"
  "items (before_loop w) =
     (items w)((VExt [''devito'', ''configuration''], VStr ''compiler'') \<mapsto> VStr ''intel'')"
  "runs (before_loop w) = runs w" "procs (before_loop w) = procs w"
  "shown (before_loop w) = shown w"
  "user_ns (before_loop w) = (user_ns w)(''configuration'' \<mapsto> VExt [''devito'', ''configuration''])"
  by (simp_all add: before_loop_def)

lemma lap_more [simp]:
  "shown (lap X j w) =
     shown w @ caught (X (length (runs w))
       (DoRun (benchmark_with ''run -P acoustic -so 8 -d 256 256 256 --tn 50'' (environ w))))"
  "user_ns (lap X j w) =
     update_ns ((user_ns w)(''i'' \<mapsto> VInt j)) (length (runs w))
       (leaves (X (length (runs w))
         (DoRun (benchmark_with ''run -P acoustic -so 8 -d 256 256 256 --tn 50'' (environ w)))))"
  by (simp_all add: lap_def)

lemma bound_kept: "x \<in> dom ns \<Longrightarrow> x \<in> dom (update_ns ns k xs)"
  by (auto simp: update_ns_def)

lemma compiled_run:
  assumes "calm X"
  shows "fst (run_cells X compiled (start E)) = None"
    and "environ (snd (run_cells X compiled (start E))) = pinned E"
    and "runs (snd (run_cells X compiled (start E))) = notebook_runs E"
    and "procs (snd (run_cells X compiled (start E))) = [''lscpu'']"
    and "items (snd (run_cells X compiled (start E))) =
      [(VExt [''devito'', ''configuration''], VStr ''compiler'') \<mapsto> VStr ''intel'']"
    and "shown (snd (run_cells X compiled (start E))) = errors_from X 0 (notebook_runs E)"
    and "steady (snd (run_cells X compiled (start E)))"
    and "{''examples'', ''benchmark'', ''_exit_code'', ''configuration'', ''i''}
      \<subseteq> dom (user_ns (snd (run_cells X compiled (start E))))"
proof -
  let ?w2 = "bind ''benchmark'' benchmark_file (bind ''examples'' (VExt [''examples'']) (start E))"
  let ?w5 = "ran X (benchmark_with ''run -P acoustic'' E) (ran X (benchmark_with ''--help'' E) ?w2)"
  let ?w11 = "set_env ''OMP_NUM_THREADS'' ''8''
    (bind ''_exit_code'' (VExit ''lscpu'') (spawned ''lscpu'' (set_env ''DEVITO_OPENMP'' ''1'' ?w5)))"
  let ?w14 = "lap X 2 (lap X 1 (lap X 0 (before_loop ?w11)))"
  let ?w22 = "ran X (benchmark_with
      ''run -P acoustic -so 8 -d 512 512 512 --tn 50 -dse advanced -dle advanced'' (pinned E))
    (ran X (benchmark_with ''run -P acoustic -so 8 -d 512 512 512 --tn 50 -dse advanced'' (pinned E))
      (ran X (benchmark_with ''run -P acoustic -so 8 -d 256 256 256 --tn 50 -dse advanced''
         (pinned E)) ?w14))"
  have i: "raised (X k (DoImport p)) = None" for k p
    using assms by (simp add: calm_def)
  have s2: "steady ?w2" by (simp add: steady_def)
  have p: "environ ?w14 = pinned E" by (simp add: pinned_def)
  have r: "run_cells X compiled (start E) = (None, ?w22)"
    using assms s2
    by (simp add: compiled_cells cell_2 i cell_3 cell_5 cell_7 cell_9 cell_11 cell_14
        automagic_cells spared_def pinned_def)
  show "fst (run_cells X compiled (start E)) = None" by (simp add: r)
  show "environ (snd (run_cells X compiled (start E))) = pinned E"
    by (simp add: r pinned_def)
  show "runs (snd (run_cells X compiled (start E))) = notebook_runs E"
    by (simp add: r notebook_runs_def pinned_def)
  show "procs (snd (run_cells X compiled (start E))) = [''lscpu'']" by (simp add: r)
  show "items (snd (run_cells X compiled (start E))) =
      [(VExt [''devito'', ''configuration''], VStr ''compiler'') \<mapsto> VStr ''intel'']"
    by (simp add: r)
  show "shown (snd (run_cells X compiled (start E))) = errors_from X 0 (notebook_runs E)"
    by (simp add: r notebook_runs_def pinned_def)
  show "steady (snd (run_cells X compiled (start E)))"
    using assms s2 by (simp add: r spared_def)
  show "{''examples'', ''benchmark'', ''_exit_code'', ''configuration'', ''i''}
      \<subseteq> dom (user_ns (snd (run_cells X compiled (start E))))"
    by (simp add: r bound_kept)
qed

subsection \<open>The shell commands of any run\<close>

lemma call_procs: "procs (snd (call f vs w)) = procs w"
  by (auto simp: call_def split: val.splits list.splits)

lemma eval_procs:
  "procs (snd (eval e w)) = procs w"
  "procs (snd (eval_list es w)) = procs w"
  by (induction e w and es w rule: eval_eval_list.induct)
     (auto simp: call_procs split: prod.splits sum.splits option.splits)

lemma eval_procs': "eval e w = (r, w') \<Longrightarrow> procs w' = procs w"
  using eval_procs(1) [of e w] by simp

lemma magic_procs:
  "procs (snd (magic_env a w)) = procs w" "procs (snd (magic_run X a w)) = procs w"
  by (auto simp: magic_env_def magic_run_def split: option.splits list.splits)

lemma import_procs: "procs (snd (import_module X p x v w)) = procs w"
  by (auto simp: import_module_def split: option.splits)

lemma setitem_procs: "procs (snd (setitem X obj k v w)) = procs w"
  by (auto simp: setitem_def split: option.splits val.splits)

lemma exec_procs:
  "shells s = [] \<Longrightarrow> procs (snd (exec X s w)) = procs w"
  "concat (map shells ss) = [] \<Longrightarrow> procs (snd (exec_block X ss w)) = procs w"
  "concat (map shells body) = [] \<Longrightarrow> procs (snd (exec_for X x vs body w)) = procs w"
proof (induction X s w and X ss w and X x vs body w rule: exec_exec_block_exec_for.induct)
  case (4 X obj key e w)
  then show ?case
    by (auto simp: setitem_procs split: prod.splits sum.splits dest!: eval_procs')
next
  case (5 X x e body w)
  then show ?case by (auto split: prod.splits sum.splits dest!: eval_procs')
next
  case (11 X s ss w)
  then show ?case by (auto split: prod.splits option.splits)
next
  case (13 X x v vs body w)
  then show ?case by (auto split: prod.splits option.splits)
qed (auto simp: import_procs magic_procs split: prod.splits sum.splits dest!: eval_procs')

lemma block_procs:
  "flat c \<Longrightarrow> exec_block X c w = (r, w') \<Longrightarrow>
   (r = None \<longrightarrow> procs w' = procs w @ concat (map shells c))
   \<and> (\<exists>p. prefix p (concat (map shells c)) \<and> procs w' = procs w @ p)"
proof (induction c arbitrary: w)
  case Nil
  then show ?case by simp
next
  case (Cons s ss)
  obtain r1 w1 where e: "exec X s w = (r1, w1)" by (cases "exec X s w")
  from Cons.prems(1) have f: "flat ss" by (simp add: flat_def)
  show ?case
  proof (cases "\<exists>c. s = Shell c")
    case True
    then obtain c where s: "s = Shell c" by blast
    show ?thesis
    proof (cases r1)
      case None
      with e s have w1: "procs w1 = procs w @ [strip c]"
        by (auto simp: shell_def split: if_splits)
      from None e Cons.prems(2) have "exec_block X ss w1 = (r, w')" by simp
      from Cons.IH [OF f this] w1 s show ?thesis by auto
    next
      case (Some err)
      with e s have "procs w1 = procs w" by (auto simp: shell_def split: if_splits)
      with Some e Cons.prems(2) show ?thesis by auto
    qed
  next
    case False
    with Cons.prems(1) have n: "shells s = []"
      by (cases s) (simp_all add: flat_def)
    with e exec_procs(1) [of s X w] have w1: "procs w1 = procs w" by simp
    show ?thesis
    proof (cases r1)
      case None
      with e Cons.prems(2) have "exec_block X ss w1 = (r, w')" by simp
      from Cons.IH [OF f this] w1 n show ?thesis by simp
    next
      case (Some err)
      with e Cons.prems(2) w1 show ?thesis by auto
    qed
  qed
qed

lemma cell_procs:
  "flat c \<Longrightarrow> exec_cell X c w = (r, w') \<Longrightarrow>
   (r = None \<longrightarrow> procs w' = procs w @ concat (map shells c))
   \<and> (\<exists>p. prefix p (concat (map shells c)) \<and> procs w' = procs w @ p)"
  using block_procs [of c X w r w'] by (auto simp: exec_cell_def split: if_splits)

lemma cells_procs:
  "list_all flat cs \<Longrightarrow>
   \<exists>p. prefix p (concat (map (\<lambda>c. concat (map shells c)) cs))
     \<and> procs (snd (run_cells X cs w)) = procs w @ p"
proof (induction cs arbitrary: w)
  case Nil
  then show ?case by simp
next
  case (Cons c cs)
  obtain r1 w1 where e: "exec_cell X c w = (r1, w1)" by (cases "exec_cell X c w")
  from Cons.prems have f: "flat c" "list_all flat cs" by simp_all
  note c = cell_procs [OF f(1) e]
  show ?case
  proof (cases r1)
    case None
    with c have w1: "procs w1 = procs w @ concat (map shells c)" by simp
    from Cons.IH [OF f(2), of w1] obtain p where
      "prefix p (concat (map (\<lambda>c. concat (map shells c)) cs))"
      "procs (snd (run_cells X cs w1)) = procs w1 @ p" by blast
    with None e w1 show ?thesis by (auto intro!: exI [of _ "concat (map shells c) @ p"])
  next
    case (Some err)
    from c obtain p where "prefix p (concat (map shells c))" "procs w1 = procs w @ p" by blast
    with Some e show ?thesis by (auto intro!: exI [of _ p] prefix_prefix)
  qed
qed

lemma notebook_flat: "list_all flat notebook"
  by code_simp

lemma notebook_shells: "concat (map (\<lambda>c. concat (map shells c)) notebook) = [''lscpu'']"
  by code_simp

lemma notebook_procs: "prefix (procs (snd (run_cells X notebook (start E)))) [''lscpu'']"
  using cells_procs [OF notebook_flat, of X "start E"] by (auto simp: notebook_shells)

subsection \<open>The run of the whole notebook\<close>

text \<open>After the cells that compile the run stops at cell 24, which changes nothing.\<close>

lemma run_cells_append:
  "run_cells X (cs @ ds) w =
    (case run_cells X cs w of (Some err, w') \<Rightarrow> (Some err, w') | (None, w') \<Rightarrow> run_cells X ds w')"
  by (induction cs arbitrary: w) (auto split: prod.splits option.splits)

lemma notebook_run:
  assumes "calm X"
  shows "run_cells X notebook (start E) = (Some SyntaxError, snd (run_cells X compiled (start E)))"
  using compiled_run(1) [OF assms, of E]
  by (cases "run_cells X compiled (start E)")
     (simp add: notebook_split run_cells_append broken_cells)

subsection \<open>The environment of any run\<close>

text \<open>
  Whatever the external code does, the environment of the kernel and of every run keeps to
  the environment the kernel started in, and the run of the notebook does not reach its
  end.
\<close>

lemma call_keeps: "keeps E (snd (call f vs w)) = keeps E w"
  by (auto simp: call_def keeps_def split: val.splits list.splits)

lemma eval_keeps:
  "keeps E (snd (eval e w)) = keeps E w"
  "keeps E (snd (eval_list es w)) = keeps E w"
  by (induction e w and es w rule: eval_eval_list.induct)
     (auto simp: call_keeps split: prod.splits sum.splits option.splits)

lemma eval_keeps': "eval e w = (r, w') \<Longrightarrow> keeps E w' = keeps E w"
  using eval_keeps(1) [of E e w] by simp

lemma keeps_bind [simp]: "keeps E (bind x v w) = keeps E w"
  by (simp add: keeps_def)

lemma import_keeps: "keeps E (snd (import_module X p x v w)) = keeps E w"
  by (auto simp: import_module_def split: option.splits)

lemma setitem_keeps: "keeps E (snd (setitem X obj k v w)) = keeps E w"
  by (auto simp: setitem_def keeps_def split: option.splits val.splits)

lemma shell_keeps: "keeps E (snd (shell c w)) = keeps E w"
  by (auto simp: shell_def keeps_def)

lemma run_keeps: "keeps E w \<Longrightarrow> keeps E (snd (magic_run X a w))"
  by (auto simp: magic_run_def keeps_def split: option.splits list.splits)

lemma env_keeps:
  "keeps E w \<Longrightarrow> mild (Magic percent ''env'' a) \<Longrightarrow> keeps E (snd (magic_env a w))"
  by (auto simp: magic_env_def keeps_def mild_def agree_def split: option.splits list.splits)

lemma exec_keeps:
  "mild s \<Longrightarrow> keeps E w \<Longrightarrow> keeps E (snd (exec X s w))"
  "list_all mild ss \<Longrightarrow> keeps E w \<Longrightarrow> keeps E (snd (exec_block X ss w))"
  "list_all mild body \<Longrightarrow> keeps E w \<Longrightarrow> keeps E (snd (exec_for X x vs body w))"
proof (induction X s w and X ss w and X x vs body w rule: exec_exec_block_exec_for.induct)
  case (4 X obj key e w)
  then show ?case
    by (auto simp: setitem_keeps split: prod.splits sum.splits dest!: eval_keeps' [where E = E])
next
  case (5 X x e body w)
  from 5(2) have b: "list_all mild body" by (simp add: mild_def list_all_iff)
  obtain r w1 where ev: "eval e w = (r, w1)" by (cases "eval e w")
  with 5(3) have k: "keeps E w1" using eval_keeps(1) [of E e w] by simp
  show ?case
  proof (cases r)
    case (Inl err)
    with ev k show ?thesis by simp
  next
    case (Inr v)
    show ?thesis
    proof (cases "iterate v")
      case (Inl err)
      with ev k \<open>r = Inr v\<close> show ?thesis by simp
    next
      case (Inr vs)
      from 5(1) [OF ev [symmetric] \<open>r = Inr v\<close> Inr b k] ev \<open>r = Inr v\<close> Inr
      show ?thesis by simp
    qed
  qed
next
  case (7 X percent name args w)
  then show ?case by (auto simp: run_keeps intro: env_keeps)
next
  case (11 X s ss w)
  then show ?case by (auto split: prod.splits option.splits)
next
  case (13 X x v vs body w)
  then show ?case by (auto split: prod.splits option.splits)
qed (auto simp: import_keeps shell_keeps split: prod.splits sum.splits dest!: eval_keeps' [where E = E])

lemma cells_keep:
  "list_all (\<lambda>c. compiles c \<longrightarrow> list_all mild c) cs \<Longrightarrow> keeps E w \<Longrightarrow>
   keeps E (snd (run_cells X cs w))"
proof (induction cs arbitrary: w)
  case Nil
  then show ?case by simp
next
  case (Cons c cs)
  then have "keeps E (snd (exec_cell X c w))"
    using exec_keeps(2) [of c E w X] by (simp add: exec_cell_def)
  with Cons show ?case by (auto split: prod.splits option.splits)
qed

lemma notebook_mild: "list_all (\<lambda>c. compiles c \<longrightarrow> list_all mild c) notebook"
  by code_simp

lemma notebook_keeps: "keeps E (snd (run_cells X notebook (start E)))"
  by (rule cells_keep [OF notebook_mild]) (simp add: keeps_def agree_def)

lemma notebook_stops: "fst (run_cells X notebook (start E)) \<noteq> None"
  by (cases "run_cells X compiled (start E)")
     (auto simp: notebook_split run_cells_append broken_cells split: option.splits)


section \<open>The properties claimed of the notebook\<close>

text \<open>
  C1. The lines that call \<^verbatim>\<open>env\<close> are written with seven settings: DEVITO_OPENMP=1,
  OMP_NUM_THREADS=8, KMP_HW_SUBSET=8c,1t, KMP_AFFINITY=compact, DEVITO_ARCH=intel,
  DEVITO_AUTOTUNING=aggressive and DEVITO_BACKEND=yask; and no Python line writes the
  environment. But the last two settings stand in cells 24 and 27, which the kernel does
  not compile: on a kernel started in any environment \<open>E\<close>, whatever the external code
  does, the run of the notebook does not reach its end and leaves DEVITO_AUTOTUNING and
  DEVITO_BACKEND as they are in \<open>E\<close>; with calm external code it stops at cell 24 with a
  \<^verbatim>\<open>SyntaxError\<close> and leaves \<open>E\<close> changed by the first five settings only.
\<close>

theorem env_settings_made:
  "env_settings code_lines =
     [Some (''DEVITO_OPENMP'', ''1''), Some (''OMP_NUM_THREADS'', ''8''),
      Some (''KMP_HW_SUBSET'', ''8c,1t''), Some (''KMP_AFFINITY'', ''compact''),
      Some (''DEVITO_ARCH'', ''intel''), Some (''DEVITO_AUTOTUNING'', ''aggressive''),
      Some (''DEVITO_BACKEND'', ''yask'')]
   \<and> filter touches_environ code_lines = []
   \<and> map (\<lambda>c. NoPython \<in> set (cell_kinds c)) code_cells =
       [False, False, False, False, False, False, False, False, False, False, True, True]
   \<and> fst (run_cells X notebook (start E)) \<noteq> None
   \<and> environ (snd (run_cells X notebook (start E))) ''DEVITO_AUTOTUNING'' = E ''DEVITO_AUTOTUNING''
   \<and> environ (snd (run_cells X notebook (start E))) ''DEVITO_BACKEND'' = E ''DEVITO_BACKEND''
   \<and> (calm X \<longrightarrow>
        fst (run_cells X notebook (start E)) = Some SyntaxError
        \<and> environ (snd (run_cells X notebook (start E))) =
            E(''DEVITO_OPENMP'' \<mapsto> ''1'', ''OMP_NUM_THREADS'' \<mapsto> ''8'',
              ''KMP_HW_SUBSET'' \<mapsto> ''8c,1t'', ''KMP_AFFINITY'' \<mapsto> ''compact'',
              ''DEVITO_ARCH'' \<mapsto> ''intel''))"
proof -
  have "environ (snd (run_cells X notebook (start E))) ''DEVITO_AUTOTUNING'' = E ''DEVITO_AUTOTUNING''
      \<and> environ (snd (run_cells X notebook (start E))) ''DEVITO_BACKEND'' = E ''DEVITO_BACKEND''"
    using notebook_keeps [of E X] by (simp add: keeps_def agree_def)
  then show ?thesis
    using env_settings_code_lines no_line_touches_environ refused_cells notebook_stops [of X E]
    by (simp add: notebook_run compiled_run(2) pinned_def)
qed

theorem env_settings_made_witness:
  "calm quiet
   \<and> fst (run_cells quiet notebook (start Map.empty)) = Some SyntaxError
   \<and> environ (snd (run_cells quiet notebook (start Map.empty))) ''OMP_NUM_THREADS'' = Some ''8''
   \<and> environ (snd (run_cells quiet notebook (start Map.empty))) ''DEVITO_AUTOTUNING'' = None
   \<and> environ (snd (run_cells quiet notebook (start Map.empty))) ''DEVITO_BACKEND'' = None"
proof -
  have c: "calm quiet" by (simp add: calm_def sparing_def quiet_def)
  with env_settings_made [where X = quiet and E = Map.empty]
  have "fst (run_cells quiet notebook (start Map.empty)) = Some SyntaxError"
    and "environ (snd (run_cells quiet notebook (start Map.empty))) =
            [''DEVITO_OPENMP'' \<mapsto> ''1'', ''OMP_NUM_THREADS'' \<mapsto> ''8'',
             ''KMP_HW_SUBSET'' \<mapsto> ''8c,1t'', ''KMP_AFFINITY'' \<mapsto> ''compact'',
             ''DEVITO_ARCH'' \<mapsto> ''intel'']"
    by blast+
  with c show ?thesis by simp
qed

text \<open>
  C2. Every line written as a run of the benchmark script names it as \<^verbatim>\<open>$benchmark\<close>,
  gives it no positional argument but the subcommand \<^verbatim>\<open>run\<close>, and beyond \<^verbatim>\<open>--help\<close> only
  flags among seven: \<^verbatim>\<open>-P\<close>, \<^verbatim>\<open>-so\<close>, \<^verbatim>\<open>--tn\<close>, \<^verbatim>\<open>-dse\<close> and \<^verbatim>\<open>-dle\<close> with one value
  each, \<^verbatim>\<open>-d\<close> with three, and \<^verbatim>\<open>-a\<close> with none.
\<close>

theorem benchmark_flags:
  "\<forall>(script, pos, opts) \<in> set (invocations code_lines).
      script = ''$benchmark'' \<and> pos \<in> set [[], [''run'']] \<and>
      (\<forall>(f, vs) \<in> set opts.
         f = ''--help'' \<or>
         (f, length vs) \<in> set [(''-P'', 1), (''-so'', 1), (''-d'', 3), (''--tn'', 1),
                                 (''-dse'', 1), (''-dle'', 1), (''-a'', 0)])"
  unfolding invocations_code_lines by simp

text \<open>The line of cell 22, a cell of one line, with its grid of three values.\<close>

theorem benchmark_flags_witness:
  "invocation (hd cell_22) \<in> set (invocations code_lines)
   \<and> invocation (hd cell_22) =
       (''$benchmark'', [''run''],
        [(''-P'', [''acoustic'']), (''-so'', [''8'']), (''-d'', [''512'', ''512'', ''512'']),
         (''--tn'', [''50'']), (''-dse'', [''advanced'']), (''-dle'', [''advanced''])])
   \<and> (''-d'', length [''512'', ''512'', ''512''])
     \<in> set [(''-P'', 1), (''-so'', 1), (''-d'', 3), (''--tn'', 1),
             (''-dse'', 1), (''-dle'', 1), (''-a'', 0 :: nat)]"
proof -
  let ?opts = "[(''-P'', [''acoustic'']), (''-so'', [''8'']), (''-d'', [''512'', ''512'', ''512'']),
       (''--tn'', [''50'']), (''-dse'', [''advanced'']), (''-dle'', [''advanced''])]"
  have i: "invocation (hd cell_22) = (''$benchmark'', [''run''], ?opts)"
    by code_simp
  have m: "(''$benchmark'', [''run''], ?opts) \<in> set (invocations code_lines)"
    by (simp add: invocations_code_lines)
  have d: "(''-d'', [''512'', ''512'', ''512'']) \<in> set ?opts" by simp
  from benchmark_flags m
  have "\<forall>(f, vs) \<in> set ?opts. f = ''--help'' \<or>
         (f, length vs) \<in> set [(''-P'', 1), (''-so'', 1), (''-d'', 3), (''--tn'', 1),
                                 (''-dse'', 1), (''-dle'', 1), (''-a'', 0)]"
    by fast
  with d have "(''-d'', length [''512'', ''512'', ''512''])
     \<in> set [(''-P'', 1), (''-so'', 1), (''-d'', 3), (''--tn'', 1),
             (''-dse'', 1), (''-dle'', 1), (''-a'', 0 :: nat)]"
    by fast
  with i m show ?thesis by simp
qed

text \<open>
  C10. Every line that runs the \<^verbatim>\<open>run\<close> subcommand of the benchmark script selects the
  acoustic preset with \<^verbatim>\<open>-P acoustic\<close>; a spatial order, where given, is 8, an end time,
  where given, is 50, and a level of symbolic optimisation, where given, is
  \<^verbatim>\<open>advanced\<close>.
\<close>

theorem run_presets:
  "\<forall>(script, pos, opts) \<in> set (invocations code_lines).
     pos = [''run''] \<longrightarrow>
       (''-P'', [''acoustic'']) \<in> set opts \<and>
       (\<forall>(f, vs) \<in> set opts.
          (f = ''-P'' \<longrightarrow> vs = [''acoustic'']) \<and>
          (f = ''-so'' \<longrightarrow> vs = [''8'']) \<and>
          (f = ''--tn'' \<longrightarrow> vs = [''50'']) \<and>
          (f = ''-dse'' \<longrightarrow> vs = [''advanced'']))"
  unfolding invocations_code_lines by simp

theorem run_presets_witness:
  "(''$benchmark'', [''run''],
      [(''-P'', [''acoustic'']), (''-so'', [''8'']), (''-d'', [''256'', ''256'', ''256'']),
       (''--tn'', [''50'']), (''-dse'', [''advanced''])])
     \<in> set (invocations code_lines)
   \<and> (''-P'', [''acoustic''])
     \<in> set [(''-P'', [''acoustic'']), (''-so'', [''8'']), (''-d'', [''256'', ''256'', ''256'']),
              (''--tn'', [''50'']), (''-dse'', [''advanced''])]"
proof -
  let ?opts = "[(''-P'', [''acoustic'']), (''-so'', [''8'']), (''-d'', [''256'', ''256'', ''256'']),
       (''--tn'', [''50'']), (''-dse'', [''advanced''])]"
  have m: "(''$benchmark'', [''run''], ?opts) \<in> set (invocations code_lines)"
    by (simp add: invocations_code_lines)
  with run_presets have "(''-P'', [''acoustic'']) \<in> set ?opts" by fast
  with m show ?thesis by simp
qed

text \<open>
  C4, as the code has it. Every line of every code cell is empty, a comment, an import, an
  \<^verbatim>\<open>env\<close> line, a \<^verbatim>\<open>run\<close> line, a shell escape, an assignment to an item, an
  assignment to a name, the head of a \<^verbatim>\<open>for\<close> loop or an expression statement. The
  Python lines are six: the two imports (of \<^verbatim>\<open>examples.seismic.benchmark\<close> and from
  \<^verbatim>\<open>devito\<close>), the assignment of the module's file to \<^verbatim>\<open>benchmark\<close>, the assignment into
  \<^verbatim>\<open>configuration\<close>, the loop head \<^verbatim>\<open>for i in range(3):\<close> and the call of \<^verbatim>\<open>print\<close> in
  its body. Every \<^verbatim>\<open>run\<close> line runs \<^verbatim>\<open>$benchmark\<close>, the only functions called are
  \<^verbatim>\<open>range\<close> and \<^verbatim>\<open>print\<close>, and no line defines a function or a class.
\<close>

theorem statement_kinds:
  "list_all (\<lambda>l. line_kind l \<in> set [Blank, Comment, ImportStmt, EnvMagic, RunMagic, ShellEscape,
                                     ItemAssign, NameAssign, ForLoop, ExprStmt]) code_lines
   \<and> python_lines code_lines =
       [(ImportStmt, [''import'', ''examples'', ''seismic'', ''benchmark'']),
        (NameAssign, [''benchmark'', ''examples'', ''seismic'', ''benchmark'', ''__file__'']),
        (ImportStmt, [''from'', ''devito'', ''import'', ''configuration'']),
        (ItemAssign, [''configuration'']),
        (ForLoop, [''for'', ''i'', ''in'', ''range'', ''3'']),
        (ExprStmt, [''print'', ''i''])]
   \<and> list_all (\<lambda>(script, pos, opts). script = ''$benchmark'') (invocations code_lines)
   \<and> concat (map stmt_calls (concat notebook)) = [''range'', ''print'']
   \<and> filter defining code_lines = []"
proof -
  have "list_all (\<lambda>k. k \<in> set [Blank, Comment, ImportStmt, EnvMagic, RunMagic, ShellEscape,
                                 ItemAssign, NameAssign, ForLoop, ExprStmt]) (map line_kind code_lines)"
    unfolding kinds_of_code_lines by simp
  then have "list_all (\<lambda>l. line_kind l \<in> set [Blank, Comment, ImportStmt, EnvMagic, RunMagic,
      ShellEscape, ItemAssign, NameAssign, ForLoop, ExprStmt]) code_lines"
    by (simp add: list_all_iff)
  moreover have "list_all (\<lambda>(script, pos, opts). script = ''$benchmark'') (invocations code_lines)"
    unfolding invocations_code_lines by simp
  ultimately show ?thesis
    using python_lines_code_lines calls_of_notebook no_line_defines by simp
qed

text \<open>
  C4, as it is stated, fails on the first code cell: its second line assigns to a name, and
  is none of an import, an \<^verbatim>\<open>env\<close> line, a \<^verbatim>\<open>run\<close> line, a shell escape or an assignment
  to an item.
\<close>

theorem statement_kinds_counterexample:
  "\<not> list_all (\<lambda>l. line_kind l \<in> set [Blank, Comment, ImportStmt, EnvMagic, RunMagic, ShellEscape,
                                       ItemAssign]) cell_2"
  by code_simp

text \<open>
  C5. The switches of the four engines are written in the notebook, and no line of code
  defines a function or a class. But the flag \<^verbatim>\<open>-a\<close> and the settings of
  DEVITO_AUTOTUNING and DEVITO_BACKEND stand in cells 24 and 27, which the kernel does not
  compile: on a kernel where the backend is not already YASK, no run of the notebook is
  on the YASK backend, whatever the external code does; and with calm external code three
  runs switch the symbolic engine on with \<^verbatim>\<open>-dse\<close>, one the loop engine with \<^verbatim>\<open>-dle\<close>, and
  none the auto-tuner or the YASK backend.
\<close>

theorem engines_switched:
  "filter defining code_lines = []
   \<and> ''-a'' \<in> set (words (last cell_24))
   \<and> Some (''DEVITO_AUTOTUNING'', ''aggressive'') \<in> set (env_settings code_lines)
   \<and> Some (''DEVITO_BACKEND'', ''yask'') \<in> set (env_settings code_lines)
   \<and> (E ''DEVITO_BACKEND'' \<noteq> Some ''yask'' \<longrightarrow>
        filter (switched YASK) (runs (snd (run_cells X notebook (start E)))) = [])
   \<and> (calm X \<and> E ''DEVITO_BACKEND'' \<noteq> Some ''yask'' \<longrightarrow>
        map (\<lambda>e. length (filter (switched e) (runs (snd (run_cells X notebook (start E))))))
          [DSE, DLE, Autotuner, YASK] = [3, 1, 0, 0])"
proof -
  have a: "''-a'' \<in> set (words (last cell_24))" by code_simp
  have b: "map (\<lambda>e. length (filter (switched e) (notebook_runs E))) [DSE, DLE, Autotuner, YASK]
      = [3, 1, 0, 0]" if "E ''DEVITO_BACKEND'' \<noteq> Some ''yask''"
    using that
    by (simp add: notebook_runs_def benchmark_with_def argument_facts benchmark_file_def
        pinned_def)
  have y: "filter (switched YASK) (runs (snd (run_cells X notebook (start E)))) = []"
    if "E ''DEVITO_BACKEND'' \<noteq> Some ''yask''"
    using that notebook_keeps [of E X]
    by (auto simp: keeps_def agree_def filter_empty_conv list_all_iff)
  from a b y show ?thesis
    using no_line_defines
    by (simp add: env_settings_code_lines notebook_run compiled_run(3))
qed

theorem engines_switched_witness:
  "calm quiet \<and> Map.empty ''DEVITO_BACKEND'' \<noteq> Some ''yask''
   \<and> length (filter (switched DLE) (runs (snd (run_cells quiet notebook (start Map.empty))))) = 1
   \<and> filter (switched Autotuner) (runs (snd (run_cells quiet notebook (start Map.empty)))) = []
   \<and> filter (switched YASK) (runs (snd (run_cells quiet notebook (start Map.empty)))) = []"
proof -
  have c: "calm quiet" by (simp add: calm_def sparing_def quiet_def)
  with engines_switched [where X = quiet and E = Map.empty]
  have "map (\<lambda>e. length (filter (switched e) (runs (snd (run_cells quiet notebook (start Map.empty))))))
          [DSE, DLE, Autotuner, YASK] = [3, 1, 0, 0]"
    by simp
  with c show ?thesis by simp
qed




text \<open>
  C6, as the code has it. The only functions the code calls are \<^verbatim>\<open>range\<close> and \<^verbatim>\<open>print\<close>, the
  only modules it imports are \<^verbatim>\<open>examples.seismic.benchmark\<close> and \<^verbatim>\<open>devito\<close>, and no line
  opens a \<^verbatim>\<open>with\<close> block or any other compound statement but one \<^verbatim>\<open>for\<close> loop: it
  starts no thread and takes no lock. The one process it starts is the child of the shell
  escape \<^verbatim>\<open>! lscpu\<close>: the commands a run hands to the shell are \<^verbatim>\<open>lscpu\<close>, once, or none
  when the run stops before that line, whatever the external code does; and \<^verbatim>\<open>lscpu\<close>,
  once, when the external code is calm. Threads, their number and their pinning are asked
  of the external library through four \<^verbatim>\<open>env\<close> lines.
\<close>

theorem only_process_is_lscpu:
  "prefix (procs (snd (run_cells X notebook (start E)))) [''lscpu'']
   \<and> (calm X \<longrightarrow> procs (snd (run_cells X notebook (start E))) = [''lscpu''])
   \<and> filter (\<lambda>l. line_kind l = ShellEscape) code_lines = [''! lscpu'']
   \<and> concat (map stmt_calls (concat notebook)) = [''range'', ''print'']
   \<and> concat (map imported (concat notebook)) = [''examples.seismic.benchmark'', ''devito'']
   \<and> filter handles code_lines = []
   \<and> list_all (\<lambda>s. Some s \<in> set (env_settings code_lines))
        [(''DEVITO_OPENMP'', ''1''), (''OMP_NUM_THREADS'', ''8''),
         (''KMP_HW_SUBSET'', ''8c,1t''), (''KMP_AFFINITY'', ''compact'')]"
proof -
  have e: "list_all (\<lambda>s. Some s \<in> set (env_settings code_lines))
        [(''DEVITO_OPENMP'', ''1''), (''OMP_NUM_THREADS'', ''8''),
         (''KMP_HW_SUBSET'', ''8c,1t''), (''KMP_AFFINITY'', ''compact'')]"
    unfolding env_settings_code_lines by simp
  from e show ?thesis
    using shell_lines calls_of_notebook imports_of_notebook no_line_handles notebook_procs [of X E]
    by (simp add: notebook_run compiled_run(4))
qed

theorem only_process_is_lscpu_witness:
  "calm quiet \<and> procs (snd (run_cells quiet notebook (start Map.empty))) = [''lscpu'']"
proof -
  have c: "calm quiet" by (simp add: calm_def sparing_def quiet_def)
  with only_process_is_lscpu [where X = quiet and E = Map.empty] show ?thesis by blast
qed

text \<open>
  C6, as it is stated, fails: a run of the notebook with external code that raises nothing
  hands a command to the system shell, which starts a process.
\<close>

theorem no_process_counterexample:
  "procs (snd (run_cells quiet notebook fresh)) \<noteq> procs fresh"
proof -
  have "calm quiet" by (simp add: calm_def sparing_def quiet_def)
  then have "procs (snd (run_cells quiet notebook (start Map.empty))) = [''lscpu'']"
    by (simp add: notebook_run compiled_run(4))
  then show ?thesis by (simp add: start_empty fresh_def)
qed

text \<open>
  C7, as the code has it. No line of code starts a \<^verbatim>\<open>try\<close>, a branch, a \<^verbatim>\<open>while\<close>, a
  \<^verbatim>\<open>with\<close> or another keyword statement, none holds a conditional expression and none
  names the exit status of the shell command. What a run of the benchmark script raises
  never reaches the code: with calm external code, whatever the scripts raise, the
  notebook asks for each of its runs in turn, and what they raised is what the kernel has
  shown, in the order of the runs.
\<close>

theorem errors_shown:
  "filter handles code_lines = []
   \<and> filter reads_status code_lines = []
   \<and> (calm X \<longrightarrow>
        runs (snd (run_cells X notebook (start E))) = notebook_runs E
        \<and> shown (snd (run_cells X notebook (start E))) = errors_from X 0 (notebook_runs E))"
  using no_line_handles no_line_reads_status
  by (simp add: notebook_run compiled_run(3,6))

text \<open>When the second run of the script raises, the notebook goes on to the runs after it.\<close>

theorem errors_shown_witness:
  "calm fails_second
   \<and> length (runs (snd (run_cells fails_second notebook (start Map.empty)))) = 8
   \<and> shown (snd (run_cells fails_second notebook (start Map.empty))) = [Raised ''failed'']"
proof -
  have c: "calm fails_second" by (simp add: calm_def sparing_def fails_second_def)
  with errors_shown [where X = fails_second and E = Map.empty]
  have "runs (snd (run_cells fails_second notebook (start Map.empty))) = notebook_runs Map.empty"
    and "shown (snd (run_cells fails_second notebook (start Map.empty)))
      = errors_from fails_second 0 (notebook_runs Map.empty)"
    by blast+
  with c show ?thesis by (simp add: notebook_runs_def fails_second_def caught_def)
qed

text \<open>
  C7, as it is stated, fails: when the second run of the script raises, the run of the
  notebook does not end there and the exception is not its outcome.
\<close>

theorem errors_propagate_counterexample:
  "\<not> surfaces fails_second (start Map.empty) (run_cells fails_second notebook (start Map.empty))"
proof
  assume s: "surfaces fails_second (start Map.empty)
    (run_cells fails_second notebook (start Map.empty))"
  have c: "calm fails_second" by (simp add: calm_def sparing_def fails_second_def)
  have r: "length (runs (snd (run_cells fails_second notebook (start Map.empty)))) = 8"
    using c by (simp add: notebook_run compiled_run(3) notebook_runs_def)
  have "length (runs (start Map.empty)) \<le> 1
      \<and> 1 < length (runs (snd (run_cells fails_second notebook (start Map.empty))))
      \<and> raised (fails_second 1
          (DoRun (runs (snd (run_cells fails_second notebook (start Map.empty))) ! 1)))
        = Some (Raised ''failed'')"
    using r by (simp add: fails_second_def)
  with s have "fst (run_cells fails_second notebook (start Map.empty)) = Some (Raised ''failed'')"
    unfolding surfaces_def by blast
  with c show False by (simp add: notebook_run)
qed



text \<open>
  C9. The runs that the notebook makes see the settings of the \<^verbatim>\<open>env\<close> lines before them
  and lose none. But the kernel does not compile cells 24 and 27: on a kernel started in
  any environment \<open>E\<close>, whatever the external code does, the run of the notebook does not
  reach its end, and every run it makes has DEVITO_AUTOTUNING and DEVITO_BACKEND as they
  are in \<open>E\<close> and every variable of \<open>E\<close> still set. With calm external code it stops at
  cell 24 with a \<^verbatim>\<open>SyntaxError\<close> after eight runs, the first two in \<open>E\<close> and the six after
  them in \<open>E\<close> with the five settings made by then; the run on the YASK backend is never
  made.
\<close>

theorem environment_accumulates:
  "fst (run_cells X notebook (start E)) \<noteq> None
   \<and> list_all (\<lambda>r. run_env r ''DEVITO_AUTOTUNING'' = E ''DEVITO_AUTOTUNING''
                 \<and> run_env r ''DEVITO_BACKEND'' = E ''DEVITO_BACKEND''
                 \<and> dom E \<subseteq> dom (run_env r))
       (runs (snd (run_cells X notebook (start E))))
   \<and> (calm X \<longrightarrow>
        fst (run_cells X notebook (start E)) = Some SyntaxError
        \<and> runs (snd (run_cells X notebook (start E))) = notebook_runs E
        \<and> map run_env (runs (snd (run_cells X notebook (start E)))) =
            [E, E, pinned E, pinned E, pinned E, pinned E, pinned E, pinned E])"
proof -
  have "list_all (\<lambda>r. run_env r ''DEVITO_AUTOTUNING'' = E ''DEVITO_AUTOTUNING''
                 \<and> run_env r ''DEVITO_BACKEND'' = E ''DEVITO_BACKEND''
                 \<and> dom E \<subseteq> dom (run_env r))
       (runs (snd (run_cells X notebook (start E))))"
    using notebook_keeps [of E X] by (simp add: keeps_def agree_def)
  then show ?thesis
    using notebook_stops [of X E]
    by (simp add: notebook_run compiled_run(3) notebook_runs_def benchmark_with_def)
qed

theorem environment_accumulates_witness:
  "calm quiet
   \<and> fst (run_cells quiet notebook (start Map.empty)) = Some SyntaxError
   \<and> length (runs (snd (run_cells quiet notebook (start Map.empty)))) = 8
   \<and> run_env (last (runs (snd (run_cells quiet notebook (start Map.empty))))) ''OMP_NUM_THREADS''
       = Some ''8''
   \<and> run_env (last (runs (snd (run_cells quiet notebook (start Map.empty))))) ''DEVITO_BACKEND''
       = None"
proof -
  have c: "calm quiet" by (simp add: calm_def sparing_def quiet_def)
  with environment_accumulates [where X = quiet and E = Map.empty]
  have "fst (run_cells quiet notebook (start Map.empty)) = Some SyntaxError"
    and "runs (snd (run_cells quiet notebook (start Map.empty))) = notebook_runs Map.empty"
    by blast+
  with c show ?thesis by (simp add: notebook_runs_def benchmark_with_def pinned_def)
qed

end
